theory Spec2Isabelle
  imports Main
begin

section \<open>The credit ledger\<close>

subsection \<open>Feature costs\<close>

text \<open>
  \<^verbatim>\<open>CREDIT_COSTS\<close> of \<^verbatim>\<open>hooks/useCredits.ts\<close> and of
  \<^verbatim>\<open>services/billingService.ts\<close> (the two tables are equal); its keys are the
  type \<^verbatim>\<open>FeatureType\<close>.
\<close>

datatype FeatureType = summary | mind_map | mcq_generator | pdf_mcq | essay_evaluation

fun CREDIT_COSTS :: "FeatureType \<Rightarrow> int" where
  "CREDIT_COSTS summary = 1"
| "CREDIT_COSTS mind_map = 2"
| "CREDIT_COSTS mcq_generator = 3"
| "CREDIT_COSTS pdf_mcq = 5"
| "CREDIT_COSTS essay_evaluation = 3"

subsection \<open>Tables of the hosted database\<close>

text \<open>
  A table is the list of its rows. Of \<^verbatim>\<open>user_subscriptions\<close> the columns that the
  credit code reads or writes are kept; time stamps, prices and the payment provider's
  customer id are left out. Of \<^verbatim>\<open>credit_transactions\<close> the free-text description
  and the payment id are left out. The columns \<^verbatim>\<open>credits\<close> and
  \<^verbatim>\<open>balance_after\<close> of a transaction hold \<open>None\<close> where the insert did not send
  them. The table \<^verbatim>\<open>payment_history\<close> is never read by
  the credit code and is not modelled.
\<close>

record subscription_row =
  row_id :: nat
  user_id :: string
  plan_type :: string
  status :: string
  current_credits :: int
  dodo_subscription_id :: "string option"

record credit_transaction =
  tx_user_id :: string
  transaction_type :: string
  tx_credits :: "int option"
  balance_after :: "int option"
  feature_used :: "FeatureType option"

record ledger =
  user_subscriptions :: "subscription_row list"
  credit_transactions :: "credit_transaction list"

text \<open>What a call to the database client can do: apply the statement, answer with an
  error object, or throw (the transport fails).\<close>

datatype db_outcome = DbOk | DbError | DbThrows

text \<open>\<^verbatim>\<open>.update({current_credits: v}).eq('user_id', identifier)\<close>: every row whose
  \<^verbatim>\<open>user_id\<close> is the identifier gets the value; no row matching is not an error.\<close>

definition update_credits_by_user :: "string \<Rightarrow> int \<Rightarrow> subscription_row list \<Rightarrow> subscription_row list" where
  "update_credits_by_user identifier v rows =
     map (\<lambda>r. if user_id r = identifier then r\<lparr>current_credits := v\<rparr> else r) rows"

text \<open>\<^verbatim>\<open>.update({current_credits: v}).eq('id', i)\<close>.\<close>

definition update_credits_by_id :: "nat \<Rightarrow> int \<Rightarrow> subscription_row list \<Rightarrow> subscription_row list" where
  "update_credits_by_id i v rows =
     map (\<lambda>r. if row_id r = i then r\<lparr>current_credits := v\<rparr> else r) rows"

text \<open>\<^verbatim>\<open>.single()\<close>: the one row selected, and no data when the selection has no row
  or more than one.\<close>

definition single :: "'a list \<Rightarrow> 'a option" where
  "single rows = (case rows of [r] \<Rightarrow> Some r | _ \<Rightarrow> None)"

text \<open>The balance of an account: \<^verbatim>\<open>current_credits\<close> of its row, read as
  \<^verbatim>\<open>fetchCredits\<close> reads it
  (\<^verbatim>\<open>.select(...).eq('user_id', identifier).single()\<close>).\<close>

definition balance_of :: "string \<Rightarrow> ledger \<Rightarrow> int option" where
  "balance_of identifier db =
     map_option current_credits (single (filter (\<lambda>r. user_id r = identifier) (user_subscriptions db)))"

subsection \<open>The deduction callback of the hook \<^verbatim>\<open>useCredits\<close>\<close>

text \<open>\<^verbatim>\<open>a || b\<close> on two optional strings: the empty string is falsy.\<close>

definition js_or_str :: "string option \<Rightarrow> string option \<Rightarrow> string option" where
  "js_or_str a b = (case a of Some s \<Rightarrow> if s \<noteq> [] then Some s else b | None \<Rightarrow> b)"

definition js_truthy_str :: "string option \<Rightarrow> bool" where
  "js_truthy_str a = (case a of Some s \<Rightarrow> s \<noteq> [] | None \<Rightarrow> False)"

text \<open>
  \<^verbatim>\<open>hasEnoughCredits\<close>. The first argument is the value of
  \<^verbatim>\<open>canBypassCredits()\<close>, which reads the environment; \<open>credits\<close> is the
  hook's cached balance.
\<close>

definition hasEnoughCredits :: "bool \<Rightarrow> int \<Rightarrow> FeatureType \<Rightarrow> bool" where
  "hasEnoughCredits bypass credits feature =
     (if bypass then True else credits \<ge> CREDIT_COSTS feature)"

definition usage_tx :: "string \<Rightarrow> int \<Rightarrow> int \<Rightarrow> FeatureType \<Rightarrow> credit_transaction" where
  "usage_tx identifier cost credits feature =
     \<lparr>tx_user_id = identifier, transaction_type = ''usage'', tx_credits = Some (- cost),
      balance_after = Some (credits - cost), feature_used = Some feature\<rparr>"

text \<open>
  The callback \<^verbatim>\<open>useCredits(feature)\<close> that the hook returns. Arguments: the value of
  \<^verbatim>\<open>canBypassCredits()\<close>, the user's id and e-mail, the cached balance
  \<open>credits\<close> that the callback closes over, what the database does with the update
  and with the insert, the feature, and the database. Result: the returned boolean, the
  cached balance afterwards (\<^verbatim>\<open>setCredits(prev => prev - cost)\<close>, with no realtime
  event delivered during the call), and the database afterwards.
\<close>

definition useCredits ::
  "bool \<Rightarrow> string option \<Rightarrow> string option \<Rightarrow> int \<Rightarrow> db_outcome \<Rightarrow> db_outcome \<Rightarrow> FeatureType
     \<Rightarrow> ledger \<Rightarrow> bool \<times> int \<times> ledger" where
  "useCredits bypass userId userEmail credits upd ins feature db =
     (if bypass then (True, credits, db)
      else
        let cost = CREDIT_COSTS feature in
        if credits < cost then (False, credits, db)
        else
          (case js_or_str userId userEmail of
             None \<Rightarrow> (False, credits, db)
           | Some identifier \<Rightarrow>
               (case upd of
                  DbThrows \<Rightarrow> (False, credits, db)
                | DbError \<Rightarrow> (False, credits, db)
                | DbOk \<Rightarrow>
                    let db1 = db\<lparr>user_subscriptions :=
                                 update_credits_by_user identifier (credits - cost) (user_subscriptions db)\<rparr>
                    in
                    (case ins of
                       DbThrows \<Rightarrow> (False, credits, db1)
                     | DbError \<Rightarrow> (True, credits - cost, db1)
                     | DbOk \<Rightarrow>
                         (True, credits - cost,
                          db1\<lparr>credit_transactions :=
                                credit_transactions db1 @ [usage_tx identifier cost credits feature]\<rparr>)))))"

subsection \<open>Balance fetch of the billing service\<close>

record CreditBalance =
  has_subscription :: bool
  cb_plan_type :: string
  cb_credits :: int
  monthly_credits :: int
  expires_at :: "string option"
  cb_status :: string

text \<open>The answer of the remote procedure \<^verbatim>\<open>get_user_credits\<close>: an error object, or
  the data.\<close>

datatype rpc_result = RpcError string | RpcData CreditBalance

definition no_credits :: CreditBalance where
  "no_credits =
     \<lparr>has_subscription = False, cb_plan_type = ''none'', cb_credits = 0, monthly_credits = 0,
      expires_at = None, cb_status = ''none''\<rparr>"

text \<open>\<^verbatim>\<open>getUserCredits\<close>: \<open>user\<close> is the id of the authenticated user returned by
  \<^verbatim>\<open>supabase.auth.getUser()\<close>, if there is one.\<close>

definition getUserCredits :: "string option \<Rightarrow> rpc_result \<Rightarrow> CreditBalance" where
  "getUserCredits user rpc =
     (case user of
        None \<Rightarrow> no_credits
      | Some uid \<Rightarrow> (case rpc of RpcError e \<Rightarrow> no_credits | RpcData d \<Rightarrow> d))"

record credit_check =
  hasCredits :: bool
  currentCredits :: int
  requiredCredits :: int
  planType :: string

definition checkCredits :: "string option \<Rightarrow> rpc_result \<Rightarrow> FeatureType \<Rightarrow> credit_check" where
  "checkCredits user rpc feature =
     (let balance = getUserCredits user rpc;
          required = CREDIT_COSTS feature
      in \<lparr>hasCredits = cb_credits balance \<ge> required, currentCredits = cb_credits balance,
          requiredCredits = required, planType = cb_plan_type balance\<rparr>)"

subsection \<open>The payment webhook\<close>

text \<open>
  The constant tables of \<^verbatim>\<open>dodo-webhook/index.ts\<close> are object literals, and
  \<^verbatim>\<open>TABLE[key]\<close> is a property read: for a key that the literal does not have, it
  gives what the key names on \<^verbatim>\<open>Object.prototype\<close>, a function for each name of
  \<open>object_prototype_functions\<close>, and \<^verbatim>\<open>undefined\<close> for any other key. The key
  \<^verbatim>\<open>__proto__\<close> reads as the prototype object itself where the runtime has that
  accessor (the runtime can delete it); whether it has is the field
  \<open>proto_accessor\<close> of the deployment.
\<close>

datatype 'a lookup = Absent | Own 'a | InheritedFunction | InheritedObject

definition object_prototype_functions :: "string list" where
  "object_prototype_functions =
     [''constructor'', ''hasOwnProperty'', ''isPrototypeOf'', ''propertyIsEnumerable'',
      ''toLocaleString'', ''toString'', ''valueOf'', ''__defineGetter__'', ''__defineSetter__'',
      ''__lookupGetter__'', ''__lookupSetter__'']"

text \<open>
  What the handlers take from where they are deployed: whether the runtime has the
  \<^verbatim>\<open>__proto__\<close> accessor, and the defaults that the table
  \<^verbatim>\<open>user_subscriptions\<close> gives the columns \<^verbatim>\<open>plan_type\<close> and
  \<^verbatim>\<open>current_credits\<close> of a new row when the insert does not send them. The
  declaration of the table is not part of the sources.
\<close>

record deployment =
  proto_accessor :: bool
  default_plan_type :: string
  default_current_credits :: int

definition js_lookup :: "deployment \<Rightarrow> (string \<times> 'a) list \<Rightarrow> string \<Rightarrow> 'a lookup" where
  "js_lookup env table key =
     (case map_of table key of
        Some v \<Rightarrow> Own v
      | None \<Rightarrow>
          if key \<in> set object_prototype_functions then InheritedFunction
          else if key = ''__proto__'' \<and> proto_accessor env then InheritedObject
          else Absent)"

definition PLAN_CREDITS :: "deployment \<Rightarrow> string \<Rightarrow> int lookup" where
  "PLAN_CREDITS env = js_lookup env [(''basic'', 200), (''pro'', 400)]"

definition PACKAGE_CREDITS :: "deployment \<Rightarrow> string \<Rightarrow> int lookup" where
  "PACKAGE_CREDITS env =
     js_lookup env
       [(''pdt_0NWfIIB8YCLeExHJxEp0D'', 50),
        (''pdt_0NWfIJl53N3g787FepmFP'', 120),
        (''pdt_0NWfILvFXsCCRNki0ojs6'', 300)]"

definition PRODUCT_PLANS :: "deployment \<Rightarrow> string \<Rightarrow> string lookup" where
  "PRODUCT_PLANS env =
     js_lookup env
       [(''pdt_0NWfIDvBZePuVfiU5bmom'', ''basic''),
        (''pdt_0NWfIFkWCMpUGhXYfg4aw'', ''pro'')]"

text \<open>\<^verbatim>\<open>v || d\<close> on what a table gives: \<^verbatim>\<open>undefined\<close>, \<open>0\<close> and the empty
  string are falsy, a function and an object are truthy.\<close>

definition lookup_or_num :: "int lookup \<Rightarrow> int \<Rightarrow> int lookup" where
  "lookup_or_num v d =
     (case v of Absent \<Rightarrow> Own d | Own n \<Rightarrow> if n \<noteq> 0 then Own n else Own d | _ \<Rightarrow> v)"

definition lookup_or_str :: "string lookup \<Rightarrow> string \<Rightarrow> string lookup" where
  "lookup_or_str v d =
     (case v of Absent \<Rightarrow> Own d | Own s \<Rightarrow> if s \<noteq> [] then Own s else Own d | _ \<Rightarrow> v)"

text \<open>\<^verbatim>\<open>n || d\<close> on an optional number: \<^verbatim>\<open>undefined\<close> and \<open>0\<close> are falsy.\<close>

definition js_or_num :: "int option \<Rightarrow> int \<Rightarrow> int" where
  "js_or_num a d = (case a of Some n \<Rightarrow> if n \<noteq> 0 then n else d | None \<Rightarrow> d)"

text \<open>
  What a write carries for one column. The client sends the row as JSON text, in which a
  property whose value is \<^verbatim>\<open>undefined\<close> or a function does not appear
  (\<open>NotSent\<close>): an update leaves such a column as it is, an insert gives it its
  default. The columns \<^verbatim>\<open>current_credits\<close>, \<^verbatim>\<open>credits\<close> and
  \<^verbatim>\<open>balance_after\<close> are numbers in the interfaces of the client code; the database
  is taken to answer with an error, and not to apply, a write that carries an object or a
  string for one of them (\<open>IllTyped\<close>). The column \<^verbatim>\<open>plan_type\<close> is text and
  takes the JSON text of an object.
\<close>

datatype 'a sent = NotSent | Sent 'a | IllTyped

definition num_column :: "int lookup \<Rightarrow> int sent" where
  "num_column v =
     (case v of Absent \<Rightarrow> NotSent | Own n \<Rightarrow> Sent n | InheritedFunction \<Rightarrow> NotSent
      | InheritedObject \<Rightarrow> IllTyped)"

definition text_column :: "string lookup \<Rightarrow> string sent" where
  "text_column v =
     (case v of Absent \<Rightarrow> NotSent | Own s \<Rightarrow> Sent s | InheritedFunction \<Rightarrow> NotSent
      | InheritedObject \<Rightarrow> Sent ''{}'')"

definition written :: "'a sent \<Rightarrow> 'a \<Rightarrow> 'a" where
  "written s old = (case s of Sent v \<Rightarrow> v | _ \<Rightarrow> old)"

definition logged :: "'a sent \<Rightarrow> 'a option" where
  "logged s = (case s of Sent v \<Rightarrow> Some v | _ \<Rightarrow> None)"

text \<open>The primary key that the database gives a new row.\<close>

definition fresh_id :: "subscription_row list \<Rightarrow> nat" where
  "fresh_id rows = Suc (fold max (map row_id rows) 0)"

text \<open>
  In the handlers below a write whose outcome is \<open>DbThrows\<close> ends the handler (the
  exception leaves it), and a write whose outcome is \<open>DbError\<close> is not applied; the
  handler goes on after it unless it inspects the error. Reads are applied.
\<close>

text \<open>\<^verbatim>\<open>.upsert({...}, {onConflict: 'user_id'})\<close> of
  \<^verbatim>\<open>handleSubscriptionCreated\<close>.\<close>

definition upsert_subscription ::
  "deployment \<Rightarrow> string \<Rightarrow> string sent \<Rightarrow> int sent \<Rightarrow> string option \<Rightarrow> subscription_row list
     \<Rightarrow> subscription_row list" where
  "upsert_subscription env uid plan monthly sid rows =
     (if \<exists>r \<in> set rows. user_id r = uid
      then map (\<lambda>r. if user_id r = uid
                      then r\<lparr>plan_type := written plan (plan_type r), status := ''active'',
                             current_credits := written monthly (current_credits r),
                             dodo_subscription_id := sid\<rparr>
                      else r) rows
      else rows @ [\<lparr>row_id = fresh_id rows, user_id = uid,
                     plan_type = written plan (default_plan_type env), status = ''active'',
                     current_credits = written monthly (default_current_credits env),
                     dodo_subscription_id = sid\<rparr>])"

text \<open>
  \<^verbatim>\<open>handleSubscriptionCreated\<close>. \<open>customerEmail\<close> is
  \<^verbatim>\<open>customer?.email || data.customer_email\<close>, \<open>found\<close> the id that the look-up
  of the e-mail in the users table gives, \<open>customer_id\<close>, \<open>product_id\<close> and
  \<open>subscription_id\<close> the fields of the event, \<open>ups\<close> and \<open>ins\<close> what the
  database does with the upsert and with the insert of the transaction. When
  \<^verbatim>\<open>planType\<close> is a function or an object, the key of
  \<^verbatim>\<open>PLAN_CREDITS[planType]\<close> is its text, which no table and no prototype has.
\<close>

definition handleSubscriptionCreated ::
  "deployment \<Rightarrow> string option \<Rightarrow> string option \<Rightarrow> string option \<Rightarrow> string \<Rightarrow> string option
     \<Rightarrow> db_outcome \<Rightarrow> db_outcome \<Rightarrow> ledger \<Rightarrow> ledger" where
  "handleSubscriptionCreated env customerEmail found customer_id product_id subscription_id ups ins db =
     (if \<not> js_truthy_str customerEmail then db
      else
        (case js_or_str found (js_or_str customer_id customerEmail) of
           None \<Rightarrow> db
         | Some userId \<Rightarrow>
             let planType = lookup_or_str (PRODUCT_PLANS env product_id) ''basic'';
                 monthlyCredits = (case planType of Own p \<Rightarrow> PLAN_CREDITS env p | _ \<Rightarrow> Absent)
             in
             if ups = DbOk \<and> num_column monthlyCredits \<noteq> IllTyped
             then
               let db1 = db\<lparr>user_subscriptions :=
                            upsert_subscription env userId (text_column planType)
                              (num_column monthlyCredits) subscription_id (user_subscriptions db)\<rparr>
               in
               if ins = DbOk
               then db1\<lparr>credit_transactions := credit_transactions db1 @
                          [\<lparr>tx_user_id = userId, transaction_type = ''subscription_credit'',
                            tx_credits = logged (num_column monthlyCredits),
                            balance_after = logged (num_column monthlyCredits),
                            feature_used = None\<rparr>]\<rparr>
               else db1
             else db))"

text \<open>
  \<^verbatim>\<open>handleSubscriptionRenewed\<close>; \<open>upd\<close> and \<open>ins\<close> are what the database
  does with the update of the row and with the insert of the transaction. When
  \<^verbatim>\<open>monthlyCredits\<close> is a function or an object, \<^verbatim>\<open>newCredits\<close> is a string:
  the update and the insert carry it for a number and are not applied.
\<close>

definition handleSubscriptionRenewed ::
  "deployment \<Rightarrow> string \<Rightarrow> db_outcome \<Rightarrow> db_outcome \<Rightarrow> ledger \<Rightarrow> ledger" where
  "handleSubscriptionRenewed env subscription_id upd ins db =
     (case single (filter (\<lambda>r. dodo_subscription_id r = Some subscription_id) (user_subscriptions db)) of
        None \<Rightarrow> db
      | Some subscription \<Rightarrow>
          (case lookup_or_num (PLAN_CREDITS env (plan_type subscription)) 200 of
             Own monthlyCredits \<Rightarrow>
               let newCredits = current_credits subscription + monthlyCredits in
               (case upd of
                  DbThrows \<Rightarrow> db
                | _ \<Rightarrow>
                    let db1 = (if upd = DbOk
                               then db\<lparr>user_subscriptions :=
                                       update_credits_by_id (row_id subscription) newCredits
                                         (user_subscriptions db)\<rparr>
                               else db)
                    in
                    (case ins of
                       DbOk \<Rightarrow>
                         db1\<lparr>credit_transactions := credit_transactions db1 @
                               [\<lparr>tx_user_id = user_id subscription,
                                 transaction_type = ''subscription_credit'',
                                 tx_credits = Some monthlyCredits, balance_after = Some newCredits,
                                 feature_used = None\<rparr>]\<rparr>
                     | _ \<Rightarrow> db1))
           | _ \<Rightarrow> db))"

text \<open>
  \<^verbatim>\<open>handlePaymentCompleted\<close>; \<open>customerEmail\<close> is
  \<^verbatim>\<open>customer?.email || data.customer_email\<close>, \<open>wr\<close> is what the database does
  with the write of the row (the update, or the insert of a new row) and \<open>ins\<close> with the
  insert of the transaction. The user id \<^verbatim>\<open>data.customer_id || customerEmail\<close> may be
  \<^verbatim>\<open>undefined\<close>; no row has such a \<^verbatim>\<open>user_id\<close>, and the handler's writes for it
  are not modelled. When \<^verbatim>\<open>creditsAmount\<close> is a function or an object, it is truthy
  and \<^verbatim>\<open>newBalance\<close> is a string: the update and the insert of the transaction carry
  it for a number and are not applied, and the insert of a new row sends no
  \<^verbatim>\<open>current_credits\<close> for a function and is not applied for an object.
\<close>

definition handlePaymentCompleted ::
  "deployment \<Rightarrow> string option \<Rightarrow> string option \<Rightarrow> string \<Rightarrow> db_outcome \<Rightarrow> db_outcome \<Rightarrow> ledger
     \<Rightarrow> ledger" where
  "handlePaymentCompleted env customerEmail customer_id product_id wr ins db =
     (let creditsAmount = PACKAGE_CREDITS env product_id in
      if creditsAmount = Absent \<or> creditsAmount = Own 0 then db
      else
        (case js_or_str customer_id customerEmail of
           None \<Rightarrow> db
         | Some userId \<Rightarrow>
             let rows = user_subscriptions db;
                 existingSub = single (filter (\<lambda>r. user_id r = userId) rows);
                 currentCredits = js_or_num (map_option current_credits existingSub) 0
             in
             (case creditsAmount of
                Own amount \<Rightarrow>
                  let newBalance = currentCredits + amount in
                  (case wr of
                     DbThrows \<Rightarrow> db
                   | _ \<Rightarrow>
                       let db1 = (if wr = DbOk
                                  then db\<lparr>user_subscriptions :=
                                         (case existingSub of
                                            Some sub \<Rightarrow> update_credits_by_id (row_id sub) newBalance rows
                                          | None \<Rightarrow>
                                              rows @ [\<lparr>row_id = fresh_id rows, user_id = userId,
                                                        plan_type = ''free'', status = ''active'',
                                                        current_credits = amount,
                                                        dodo_subscription_id = None\<rparr>])\<rparr>
                                  else db)
                       in
                       (case ins of
                          DbOk \<Rightarrow>
                            db1\<lparr>credit_transactions := credit_transactions db1 @
                                  [\<lparr>tx_user_id = userId, transaction_type = ''purchase'',
                                    tx_credits = Some amount, balance_after = Some newBalance,
                                    feature_used = None\<rparr>]\<rparr>
                        | _ \<Rightarrow> db1))
              | _ \<Rightarrow>
                  if existingSub = None \<and> wr = DbOk \<and> num_column creditsAmount \<noteq> IllTyped
                  then db\<lparr>user_subscriptions :=
                           rows @ [\<lparr>row_id = fresh_id rows, user_id = userId,
                                     plan_type = ''free'', status = ''active'',
                                     current_credits =
                                       written (num_column creditsAmount) (default_current_credits env),
                                     dodo_subscription_id = None\<rparr>]\<rparr>
                  else db)))"

subsection \<open>Sequences of debits and credits\<close>





subsection \<open>Two sessions on one account\<close>

text \<open>
  The requests that one call of the deduction callback sends to the database, in order,
  when the database applies each of them; \<open>None\<close> when the callback returns
  \<^verbatim>\<open>false\<close> before any request. The comparison \<^verbatim>\<open>credits < cost\<close> is made in
  the client on its cached balance and is not part of any request.
\<close>

datatype db_request = ReqUpdate string int | ReqInsert credit_transaction

fun apply_request :: "db_request \<Rightarrow> ledger \<Rightarrow> ledger" where
  "apply_request (ReqUpdate identifier v) db =
     db\<lparr>user_subscriptions := update_credits_by_user identifier v (user_subscriptions db)\<rparr>"
| "apply_request (ReqInsert t) db = db\<lparr>credit_transactions := credit_transactions db @ [t]\<rparr>"

definition useCredits_requests ::
  "bool \<Rightarrow> string option \<Rightarrow> string option \<Rightarrow> int \<Rightarrow> FeatureType \<Rightarrow> db_request list option" where
  "useCredits_requests bypass userId userEmail credits feature =
     (if bypass then Some []
      else
        let cost = CREDIT_COSTS feature in
        if credits < cost then None
        else
          (case js_or_str userId userEmail of
             None \<Rightarrow> None
           | Some identifier \<Rightarrow>
               Some [ReqUpdate identifier (credits - cost),
                     ReqInsert (usage_tx identifier cost credits feature)]))"

text \<open>All the orders in which the database can receive the requests of two clients,
  each client's requests staying in their order.\<close>

fun interleavings :: "'a list \<Rightarrow> 'a list \<Rightarrow> 'a list list" where
  "interleavings [] ys = [ys]"
| "interleavings xs [] = [xs]"
| "interleavings (x # xs) (y # ys) =
     map ((#) x) (interleavings xs (y # ys)) @ map ((#) y) (interleavings (x # xs) ys)"

text \<open>An account with one row and an empty transaction log, used as a concrete input.\<close>

definition one_account :: "int \<Rightarrow> ledger" where
  "one_account c =
     \<lparr>user_subscriptions =
        [\<lparr>row_id = 1, user_id = ''u1'', plan_type = ''basic'', status = ''active'',
          current_credits = c, dodo_subscription_id = Some ''sub_1''\<rparr>],
      credit_transactions = []\<rparr>"

text \<open>A deployment whose runtime has the \<^verbatim>\<open>__proto__\<close> accessor and whose table
  gives a new row the plan type \<^verbatim>\<open>free\<close> and the balance \<open>0\<close>, used as a concrete
  input.\<close>

definition free_tier_deployment :: deployment where
  "free_tier_deployment =
     \<lparr>proto_accessor = True, default_plan_type = ''free'', default_current_credits = 0\<rparr>"

subsection \<open>Debit of the billing service and the credit-check hook\<close>

record debit_result =
  dr_success :: bool
  dr_balance :: int
  dr_error :: "string option"

text \<open>The answer of the remote procedure \<^verbatim>\<open>deduct_credits\<close>, which runs in the
  database: an error object, or the data.\<close>

datatype deduct_result = DeductError string | DeductData debit_result

text \<open>\<^verbatim>\<open>useCredits\<close> of \<^verbatim>\<open>billingService.ts\<close>.\<close>

definition billing_useCredits :: "string option \<Rightarrow> deduct_result \<Rightarrow> debit_result" where
  "billing_useCredits user rpc =
     (case user of
        None \<Rightarrow> \<lparr>dr_success = False, dr_balance = 0, dr_error = Some ''Not authenticated''\<rparr>
      | Some uid \<Rightarrow>
          (case rpc of
             DeductError e \<Rightarrow> \<lparr>dr_success = False, dr_balance = 0, dr_error = Some e\<rparr>
           | DeductData d \<Rightarrow> d))"

text \<open>\<^verbatim>\<open>consumeCredits\<close> of the hook \<^verbatim>\<open>useCreditCheck\<close>: the returned boolean.
  \<open>user\<close> and \<open>rpc\<close> are what the balance fetch sees, \<open>user'\<close> and
  \<open>deduct\<close> what the debit sees.\<close>

definition consumeCredits ::
  "string option \<Rightarrow> rpc_result \<Rightarrow> string option \<Rightarrow> deduct_result \<Rightarrow> FeatureType \<Rightarrow> bool" where
  "consumeCredits user rpc user' deduct feature =
     (let check = checkCredits user rpc feature in
      if \<not> hasCredits check then False
      else dr_success (billing_useCredits user' deduct))"

section \<open>Strings and regular expressions\<close>

text \<open>
  A string is the list of its code units, a \<^typ>\<open>char\<close> each, so the model covers
  strings whose code units are below 256. Of the white space of the language
  (\<^verbatim>\<open>\s\<close>, and what \<^verbatim>\<open>trim\<close> strips) these are TAB, LF, VT, FF, CR, space and
  the no-break space; of the line terminators (what \<^verbatim>\<open>.\<close> excludes) LF and CR.
\<close>

definition LF :: char where "LF = CHR 0x0A"

definition is_space :: "char \<Rightarrow> bool" where
  "is_space c = (c \<in> set [CHR 0x09, CHR 0x0A, CHR 0x0B, CHR 0x0C, CHR 0x0D, CHR 0x20, CHR 0xA0])"

definition is_digit :: "char \<Rightarrow> bool" where
  "is_digit c = (c \<in> set ''0123456789'')"

definition is_line_terminator :: "char \<Rightarrow> bool" where
  "is_line_terminator c = (c \<in> set [CHR 0x0A, CHR 0x0D])"

text \<open>Upper and lower case of the letters a to z; every other code unit is left as it
  is (the case of the letters outside ASCII is not modelled).\<close>

definition ascii_upper :: "char \<Rightarrow> char" where
  "ascii_upper c =
     (case map_of (zip ''abcdefghijklmnopqrstuvwxyz'' ''ABCDEFGHIJKLMNOPQRSTUVWXYZ'') c of
        Some u \<Rightarrow> u | None \<Rightarrow> c)"

definition ascii_lower :: "char \<Rightarrow> char" where
  "ascii_lower c =
     (case map_of (zip ''ABCDEFGHIJKLMNOPQRSTUVWXYZ'' ''abcdefghijklmnopqrstuvwxyz'') c of
        Some l \<Rightarrow> l | None \<Rightarrow> c)"

definition toUpperCase :: "string \<Rightarrow> string" where
  "toUpperCase s = map ascii_upper s"

definition trim :: "string \<Rightarrow> string" where
  "trim s = rev (dropWhile is_space (rev (dropWhile is_space s)))"

text \<open>\<^verbatim>\<open>s.split('\n')\<close>.\<close>

fun split_lines :: "string \<Rightarrow> string list" where
  "split_lines [] = [[]]"
| "split_lines (c # cs) =
     (if c = LF then [] # split_lines cs
      else (case split_lines cs of l # ls \<Rightarrow> (c # l) # ls | [] \<Rightarrow> [[c]]))"

subsection \<open>Character classes\<close>

datatype cclass =
    Lit char
  | AnyChar
  | Dot
  | Space
  | Digit
  | Range char char
  | Union cclass cclass

definition in_range :: "char \<Rightarrow> char \<Rightarrow> char \<Rightarrow> bool" where
  "in_range a b c = ((of_char a :: nat) \<le> of_char c \<and> (of_char c :: nat) \<le> of_char b)"

text \<open>Whether a code unit is in a class; the first argument is the flag \<^verbatim>\<open>i\<close>. The
  literals and ranges of the expressions below are ASCII, for which ignoring case is
  comparing upper cases.\<close>

fun cmatch :: "bool \<Rightarrow> cclass \<Rightarrow> char \<Rightarrow> bool" where
  "cmatch ci (Lit l) c = (if ci then ascii_upper c = ascii_upper l else c = l)"
| "cmatch ci AnyChar c = True"
| "cmatch ci Dot c = (\<not> is_line_terminator c)"
| "cmatch ci Space c = is_space c"
| "cmatch ci Digit c = is_digit c"
| "cmatch ci (Range a b) c =
     (in_range a b c \<or> (ci \<and> (in_range a b (ascii_upper c) \<or> in_range a b (ascii_lower c))))"
| "cmatch ci (Union x y) c = (cmatch ci x c \<or> cmatch ci y c)"

subsection \<open>Expressions and the backtracking matcher\<close>

text \<open>
  The constructs that the expressions of the parser use: one code unit of a class,
  \<^verbatim>\<open>c*\<close> and \<^verbatim>\<open>c*?\<close> on a class (\<^verbatim>\<open>c+\<close> is \<^verbatim>\<open>cc*\<close>), an optional
  group \<^verbatim>\<open>(?:r)?\<close>, a capture group, a look-ahead \<^verbatim>\<open>(?=r)\<close>, an alternative,
  \<^verbatim>\<open>^\<close> and \<^verbatim>\<open>$\<close> (without the flag \<^verbatim>\<open>m\<close>). \<open>EndGroup\<close> is not written
  in an expression: the matcher puts it where a capture group ends, with the input at
  which the group began.
\<close>

datatype regex =
    Chr cclass
  | Star cclass
  | StarLazy cclass
  | Opt "regex list"
  | Group "regex list"
  | Ahead "regex list"
  | Alt "regex list" "regex list"
  | Bol
  | Eol
  | EndGroup string

fun rweight :: "regex \<Rightarrow> nat" where
  "rweight (Opt g) = Suc (sum_list (map rweight g))"
| "rweight (Group g) = Suc (Suc (sum_list (map rweight g)))"
| "rweight (Ahead g) = Suc (sum_list (map rweight g))"
| "rweight (Alt a b) = Suc (sum_list (map rweight a) + sum_list (map rweight b))"
| "rweight _ = 1"

text \<open>
  \<open>rmatch ci n rs s caps\<close> matches the sequence \<open>rs\<close> at the start of \<open>s\<close>, trying
  the alternatives in the order of a backtracking matcher (a greedy quantifier takes
  first, a lazy one tries the rest first), and returns the rest of the input and the
  captures of the first way that succeeds. \<open>n\<close> is the length of the whole input.
\<close>

function rmatch :: "bool \<Rightarrow> nat \<Rightarrow> regex list \<Rightarrow> string \<Rightarrow> string list \<Rightarrow> (string \<times> string list) option" where
  "rmatch ci n [] s caps = Some (s, caps)"
| "rmatch ci n (Chr c # rs) s caps =
     (case s of
        [] \<Rightarrow> None
      | x # xs \<Rightarrow> if cmatch ci c x then rmatch ci n rs xs caps else None)"
| "rmatch ci n (Star c # rs) s caps =
     (case s of
        [] \<Rightarrow> rmatch ci n rs s caps
      | x # xs \<Rightarrow>
          if cmatch ci c x
          then (case rmatch ci n (Star c # rs) xs caps of
                  Some r \<Rightarrow> Some r
                | None \<Rightarrow> rmatch ci n rs s caps)
          else rmatch ci n rs s caps)"
| "rmatch ci n (StarLazy c # rs) s caps =
     (case rmatch ci n rs s caps of
        Some r \<Rightarrow> Some r
      | None \<Rightarrow>
          (case s of
             [] \<Rightarrow> None
           | x # xs \<Rightarrow> if cmatch ci c x then rmatch ci n (StarLazy c # rs) xs caps else None))"
| "rmatch ci n (Opt g # rs) s caps =
     (case rmatch ci n (g @ rs) s caps of
        Some r \<Rightarrow> Some r
      | None \<Rightarrow> rmatch ci n rs s caps)"
| "rmatch ci n (Group g # rs) s caps = rmatch ci n (g @ EndGroup s # rs) s caps"
| "rmatch ci n (EndGroup s0 # rs) s caps =
     rmatch ci n rs s (caps @ [take (length s0 - length s) s0])"
| "rmatch ci n (Ahead g # rs) s caps =
     (case rmatch ci n g s caps of
        None \<Rightarrow> None
      | Some (s', caps') \<Rightarrow> rmatch ci n rs s caps')"
| "rmatch ci n (Alt a b # rs) s caps =
     (case rmatch ci n (a @ rs) s caps of
        Some r \<Rightarrow> Some r
      | None \<Rightarrow> rmatch ci n (b @ rs) s caps)"
| "rmatch ci n (Bol # rs) s caps = (if length s = n then rmatch ci n rs s caps else None)"
| "rmatch ci n (Eol # rs) s caps = (if s = [] then rmatch ci n rs s caps else None)"
  by pat_completeness auto
termination
  by (relation "measures [\<lambda>(ci, n, rs, s, caps). sum_list (map rweight rs),
                          \<lambda>(ci, n, rs, s, caps). length s]") auto

text \<open>A match: the input from where the match starts, the input after the match, and
  the captures.\<close>

type_synonym rmatch_result = "string \<times> string \<times> string list"

definition matched :: "rmatch_result \<Rightarrow> string" where
  "matched m = (case m of (s, rest, caps) \<Rightarrow> take (length s - length rest) s)"

definition capture1 :: "rmatch_result \<Rightarrow> string" where
  "capture1 m = (case m of (s, rest, caps) \<Rightarrow> (case caps of c # _ \<Rightarrow> c | [] \<Rightarrow> []))"

text \<open>The leftmost match in \<open>s\<close>, tried at every position up to the end of the
  input.\<close>

fun re_search :: "bool \<Rightarrow> nat \<Rightarrow> regex list \<Rightarrow> string \<Rightarrow> rmatch_result option" where
  "re_search ci n re s =
     (case rmatch ci n re s [] of
        Some (rest, caps) \<Rightarrow> Some (s, rest, caps)
      | None \<Rightarrow> (case s of [] \<Rightarrow> None | x # xs \<Rightarrow> re_search ci n re xs))"

text \<open>\<^verbatim>\<open>s.match(re)\<close> for an expression without the flag \<^verbatim>\<open>g\<close>.\<close>

definition re_exec :: "bool \<Rightarrow> regex list \<Rightarrow> string \<Rightarrow> rmatch_result option" where
  "re_exec ci re s = re_search ci (length s) re s"

definition lit :: "string \<Rightarrow> regex list" where
  "lit s = map (\<lambda>c. Chr (Lit c)) s"

text \<open>
  \<^verbatim>\<open>s.split(re)\<close>: the pieces between the matches, each match followed by its
  captures. \<open>acc\<close> is the piece read so far, reversed. The expression that the parser
  splits on matches no empty string; where a match is empty the loop moves on by one code
  unit.
\<close>

function split_loop :: "bool \<Rightarrow> nat \<Rightarrow> regex list \<Rightarrow> string \<Rightarrow> string \<Rightarrow> string list" where
  "split_loop ci n re acc s =
     (case s of
        [] \<Rightarrow> [rev acc]
      | x # xs \<Rightarrow>
          (case rmatch ci n re s [] of
             Some (rest, caps) \<Rightarrow>
               if length rest < length s
               then rev acc # caps @ split_loop ci n re [] rest
               else split_loop ci n re (x # acc) xs
           | None \<Rightarrow> split_loop ci n re (x # acc) xs))"
  by pat_completeness auto
termination
  by (relation "measure (\<lambda>(ci, n, re, acc, s). length s)") auto

definition re_split :: "bool \<Rightarrow> regex list \<Rightarrow> string \<Rightarrow> string list" where
  "re_split ci re s = split_loop ci (length s) re [] s"

section \<open>The generation pipeline\<close>

subsection \<open>Values of the response\<close>

text \<open>
  What \<^verbatim>\<open>JSON.parse\<close> returns. Numbers are kept as integers (the code reads only
  whether a number is \<open>0\<close>); an object is the list of its properties, each key once.
  The value \<^verbatim>\<open>undefined\<close> of a property that is absent is \<open>None\<close>.
\<close>

datatype json =
    JNull
  | JBool bool
  | JNum int
  | JStr string
  | JArr "json list"
  | JObj "(string \<times> json) list"

fun truthy :: "json \<Rightarrow> bool" where
  "truthy JNull = False"
| "truthy (JBool b) = b"
| "truthy (JNum n) = (n \<noteq> 0)"
| "truthy (JStr s) = (s \<noteq> [])"
| "truthy (JArr xs) = True"
| "truthy (JObj kvs) = True"

text \<open>\<^verbatim>\<open>v.key\<close> on a value that is not \<^verbatim>\<open>null\<close>, for a key that no prototype
  defines.\<close>

fun get_prop :: "json \<Rightarrow> string \<Rightarrow> json option" where
  "get_prop (JObj kvs) key = map_of kvs key"
| "get_prop _ key = None"

text \<open>\<^verbatim>\<open>a || b\<close> where \<open>a\<close> may be \<^verbatim>\<open>undefined\<close>.\<close>

definition js_or :: "json option \<Rightarrow> json \<Rightarrow> json" where
  "js_or a b = (case a of Some v \<Rightarrow> if truthy v then v else b | None \<Rightarrow> b)"

text \<open>The decimal numeral of an index, the key under which an object holds it.\<close>

definition index_key :: "nat \<Rightarrow> string" where
  "index_key i = (if i < 10 then [''0123456789'' ! i] else [])"

text \<open>\<^verbatim>\<open>v[i]\<close> for an index below 10, on a value that is not \<^verbatim>\<open>null\<close>.\<close>

fun js_index :: "json \<Rightarrow> nat \<Rightarrow> json option" where
  "js_index (JArr xs) i = (if i < length xs then Some (xs ! i) else None)"
| "js_index (JStr s) i = (if i < length s then Some (JStr [s ! i]) else None)"
| "js_index (JObj kvs) i = map_of kvs (index_key i)"
| "js_index _ i = None"

text \<open>\<^verbatim>\<open>v?.key\<close> where \<open>v\<close> may be \<^verbatim>\<open>undefined\<close>.\<close>

definition opt_prop :: "json option \<Rightarrow> string \<Rightarrow> json option" where
  "opt_prop v key = (case v of None \<Rightarrow> None | Some JNull \<Rightarrow> None | Some x \<Rightarrow> get_prop x key)"

definition truthy_opt :: "json option \<Rightarrow> bool" where
  "truthy_opt v = (case v of None \<Rightarrow> False | Some x \<Rightarrow> truthy x)"

subsection \<open>Question records\<close>

text \<open>The interface \<^verbatim>\<open>MCQ\<close>. The fields that the JSON stages copy from the response
  hold whatever value the response has there.\<close>

record MCQ =
  mcq_id :: nat
  question :: json
  optionA :: json
  optionB :: json
  optionC :: json
  optionD :: json
  correctAnswer :: string
  explanation :: json

datatype parse_error = SyntaxError | TypeError | NoQuestions | CouldNotParse

subsection \<open>The line-oriented text parser\<close>

text \<open>\<^verbatim>\<open>/Question\s+(\d+)\s*:/gi\<close>\<close>

definition question_re :: "regex list" where
  "question_re =
     lit ''Question'' @ [Chr Space, Star Space, Group [Chr Digit, Star Digit], Star Space,
                         Chr (Lit (CHR '':''))]"

text \<open>\<^verbatim>\<open>/^([\s\S]+?)(?=\n\s*A\.)/i\<close>\<close>

definition question_text_re :: "regex list" where
  "question_text_re =
     [Bol, Group [Chr AnyChar, StarLazy AnyChar], Ahead ([Chr (Lit LF), Star Space] @ lit ''A.'')]"

text \<open>\<^verbatim>\<open>new RegExp(`${letter}\\.\\s*([\\s\\S]+?)(?=\\n\\s*${nextLetter}\\.)`, 'i')\<close>\<close>

definition option_re1 :: "string \<Rightarrow> string \<Rightarrow> regex list" where
  "option_re1 letter nextLetter =
     lit letter @ [Chr (Lit (CHR ''.'')), Star Space, Group [Chr AnyChar, StarLazy AnyChar],
                   Ahead ([Chr (Lit LF), Star Space] @ lit nextLetter @ [Chr (Lit (CHR ''.''))])]"

text \<open>\<^verbatim>\<open>new RegExp(`${letter}\\.\\s*(.+?)(?=\\n)`, 'i')\<close>\<close>

definition option_re2 :: "string \<Rightarrow> regex list" where
  "option_re2 letter =
     lit letter @ [Chr (Lit (CHR ''.'')), Star Space, Group [Chr Dot, StarLazy Dot],
                   Ahead [Chr (Lit LF)]]"

text \<open>\<^verbatim>\<open>new RegExp(`^${letter}\\.`, 'i')\<close> and
  \<^verbatim>\<open>new RegExp(`^${letter}\\.\\s*`, 'i')\<close>\<close>

definition line_re :: "string \<Rightarrow> regex list" where
  "line_re letter = Bol # lit letter @ [Chr (Lit (CHR ''.''))]"

definition line_prefix_re :: "string \<Rightarrow> regex list" where
  "line_prefix_re letter = Bol # lit letter @ [Chr (Lit (CHR ''.'')), Star Space]"

text \<open>\<^verbatim>\<open>/Correct\s*Answer\s*[:\s]*([A-D])/i\<close>\<close>

definition correct_re :: "regex list" where
  "correct_re =
     lit ''Correct'' @ [Star Space] @ lit ''Answer'' @
     [Star Space, Star (Union (Lit (CHR '':'')) Space), Group [Chr (Range (CHR ''A'') (CHR ''D''))]]"

text \<open>\<^verbatim>\<open>/Explanation\s*[:\s]*([\s\S]+?)(?=\n\s*$|$)/i\<close>\<close>

definition explanation_re :: "regex list" where
  "explanation_re =
     lit ''Explanation'' @
     [Star Space, Star (Union (Lit (CHR '':'')) Space), Group [Chr AnyChar, StarLazy AnyChar],
      Ahead [Alt [Chr (Lit LF), Star Space, Eol] [Eol]]]"

text \<open>\<^verbatim>\<open>line.replace(re, '')\<close> for an expression without the flag \<^verbatim>\<open>g\<close>.\<close>

definition re_remove :: "bool \<Rightarrow> regex list \<Rightarrow> string \<Rightarrow> string" where
  "re_remove ci re s =
     (case re_exec ci re s of
        None \<Rightarrow> s
      | Some (s', rest, caps) \<Rightarrow> take (length s - length s') s @ rest)"

text \<open>The loop of \<^verbatim>\<open>extractOption\<close> over the lines of the block.\<close>

fun option_line :: "string \<Rightarrow> string list \<Rightarrow> string" where
  "option_line letter [] = []"
| "option_line letter (line # lines) =
     (if re_exec True (line_re letter) (trim line) \<noteq> None
      then trim (re_remove True (line_prefix_re letter) line)
      else option_line letter lines)"

definition extractOption :: "string \<Rightarrow> string \<Rightarrow> string \<Rightarrow> string" where
  "extractOption content letter nextLetter =
     (case re_exec True (option_re1 letter nextLetter) content of
        Some m \<Rightarrow> trim (capture1 m)
      | None \<Rightarrow>
          (case re_exec True (option_re2 letter) content of
             Some m \<Rightarrow> trim (capture1 m)
           | None \<Rightarrow> option_line letter (split_lines content)))"

text \<open>\<^verbatim>\<open>parseInt\<close> on a string of decimal digits.\<close>

definition digit_value :: "char \<Rightarrow> nat" where
  "digit_value c = (of_char c :: nat) - 48"

definition parseInt :: "string \<Rightarrow> nat" where
  "parseInt s = foldl (\<lambda>n c. 10 * n + digit_value c) 0 s"

text \<open>The body of the loop of \<^verbatim>\<open>parseMCQResponse\<close> on one pair of the split: the
  record that is pushed, or \<open>None\<close> where the loop goes on without pushing.\<close>

definition parse_block :: "string \<Rightarrow> string \<Rightarrow> MCQ option" where
  "parse_block num questionContent =
     (if questionContent = [] \<or> length questionContent < 50 then None
      else
        let q = (case re_exec True question_text_re questionContent of
                   Some m \<Rightarrow> trim (capture1 m) | None \<Rightarrow> [])
        in
        if q = [] \<or> length q < 10 then None
        else
          let a = extractOption questionContent ''A'' ''B'';
              b = extractOption questionContent ''B'' ''C'';
              c = extractOption questionContent ''C'' ''D'';
              d = extractOption questionContent ''D'' ''Correct''
          in
          if a = [] \<or> b = [] \<or> c = [] \<or> d = [] then None
          else
            let correct = (case re_exec True correct_re questionContent of
                             Some m \<Rightarrow> toUpperCase (capture1 m) | None \<Rightarrow> ''A'');
                expl = (case re_exec True explanation_re questionContent of
                          Some m \<Rightarrow> trim (capture1 m)
                        | None \<Rightarrow> ''The correct answer is '' @ correct @ ''.'')
            in Some \<lparr>mcq_id = parseInt num, question = JStr q, optionA = JStr a, optionB = JStr b,
                      optionC = JStr c, optionD = JStr d, correctAnswer = correct,
                      explanation = JStr expl\<rparr>)"

text \<open>The loop \<^verbatim>\<open>for (let i = 1; i < parts.length; i += 2)\<close> on the parts from index
  \<open>1\<close> on.\<close>

fun parse_blocks :: "string list \<Rightarrow> MCQ list" where
  "parse_blocks (num # questionContent # parts) =
     (case parse_block num questionContent of
        Some m \<Rightarrow> m # parse_blocks parts
      | None \<Rightarrow> parse_blocks parts)"
| "parse_blocks _ = []"

definition parseMCQResponse :: "string \<Rightarrow> MCQ list" where
  "parseMCQResponse content = parse_blocks (tl (re_split True question_re content))"






subsection \<open>The JSON stages\<close>

text \<open>\<^verbatim>\<open>/```(?:json)?\s*([\s\S]*?)```/\<close>\<close>

definition fence :: string where
  "fence = [CHR 0x60, CHR 0x60, CHR 0x60]"

definition fence_re :: "regex list" where
  "fence_re = lit fence @ [Opt (lit ''json''), Star Space, Group [StarLazy AnyChar]] @ lit fence"

text \<open>\<^verbatim>\<open>/\{[\s\S]*"mcqs"[\s\S]*\}/\<close>, and the same with \<^verbatim>\<open>"questions"\<close>.\<close>

definition object_re :: "string \<Rightarrow> regex list" where
  "object_re key =
     [Chr (Lit (CHR 0x7B)), Star AnyChar] @ lit ([CHR 0x22] @ key @ [CHR 0x22]) @
     [Star AnyChar, Chr (Lit (CHR 0x7D))]"

text \<open>\<^verbatim>\<open>v?.length\<close>\<close>

definition js_length :: "json option \<Rightarrow> json option" where
  "js_length v =
     (case v of
        Some (JArr xs) \<Rightarrow> Some (JNum (int (length xs)))
      | Some (JStr s) \<Rightarrow> Some (JNum (int (length s)))
      | Some (JObj kvs) \<Rightarrow> map_of kvs ''length''
      | _ \<Rightarrow> None)"

text \<open>\<^verbatim>\<open>xs.map((m, i) => f)\<close> where the callback may throw; \<open>i\<close> is the index of the
  head of \<open>xs\<close>.\<close>

fun map_entries :: "(nat \<Rightarrow> json \<Rightarrow> parse_error + MCQ) \<Rightarrow> nat \<Rightarrow> json list \<Rightarrow> parse_error + MCQ list" where
  "map_entries f i [] = Inr []"
| "map_entries f i (x # xs) =
     (case f i x of
        Inl e \<Rightarrow> Inl e
      | Inr m \<Rightarrow> (case map_entries f (Suc i) xs of Inl e \<Rightarrow> Inl e | Inr ms \<Rightarrow> Inr (m # ms)))"

text \<open>
  The check \<^verbatim>\<open>if (!parsed?.mcqs?.length) throw ...\<close> and the call
  \<^verbatim>\<open>parsed.mcqs.map(...)\<close>, for the key \<^verbatim>\<open>mcqs\<close> or \<^verbatim>\<open>questions\<close>: a value
  that is not an array has no \<^verbatim>\<open>map\<close>.
\<close>

definition map_parsed ::
  "string \<Rightarrow> (nat \<Rightarrow> json \<Rightarrow> parse_error + MCQ) \<Rightarrow> json \<Rightarrow> parse_error + MCQ list" where
  "map_parsed key f parsed =
     (let qs = opt_prop (Some parsed) key in
      if \<not> truthy_opt (js_length qs) then Inl NoQuestions
      else (case qs of Some (JArr xs) \<Rightarrow> map_entries f 0 xs | _ \<Rightarrow> Inl TypeError))"

text \<open>The callback of \<^verbatim>\<open>parsed.mcqs.map\<close> in \<^verbatim>\<open>generateMCQsFromPDF\<close>. Reading a
  property of \<^verbatim>\<open>null\<close> throws, and so does \<^verbatim>\<open>toUpperCase\<close> on a value that is
  not a string.\<close>

definition normalize_mcq :: "nat \<Rightarrow> json \<Rightarrow> parse_error + MCQ" where
  "normalize_mcq i m =
     (if m = JNull then Inl TypeError
      else
        (case js_or (get_prop m ''correctAnswer'') (js_or (get_prop m ''correct_answer'') (JStr ''A'')) of
           JStr answer \<Rightarrow>
             Inr \<lparr>mcq_id = i + 1,
                  question = js_or (get_prop m ''question'') (JStr ''''),
                  optionA = js_or (get_prop m ''optionA'') (js_or (get_prop m ''option_a'') (JStr '''')),
                  optionB = js_or (get_prop m ''optionB'') (js_or (get_prop m ''option_b'') (JStr '''')),
                  optionC = js_or (get_prop m ''optionC'') (js_or (get_prop m ''option_c'') (JStr '''')),
                  optionD = js_or (get_prop m ''optionD'') (js_or (get_prop m ''option_d'') (JStr '''')),
                  correctAnswer = toUpperCase answer,
                  explanation = js_or (get_prop m ''explanation'') (JStr '''')\<rparr>
         | _ \<Rightarrow> Inl TypeError))"

text \<open>The callback of \<^verbatim>\<open>parsed.questions.map\<close> in \<^verbatim>\<open>generateMCQs\<close>.\<close>

definition correct_of_flags :: "json \<Rightarrow> string" where
  "correct_of_flags opts =
     (let correct = ''A'';
          correct = (if truthy_opt (opt_prop (js_index opts 1) ''isCorrect'') then ''B'' else correct);
          correct = (if truthy_opt (opt_prop (js_index opts 2) ''isCorrect'') then ''C'' else correct);
          correct = (if truthy_opt (opt_prop (js_index opts 3) ''isCorrect'') then ''D'' else correct)
      in correct)"

definition normalize_question :: "nat \<Rightarrow> json \<Rightarrow> parse_error + MCQ" where
  "normalize_question i q =
     (if q = JNull then Inl TypeError
      else
        let opts = js_or (get_prop q ''options'') (JArr []) in
        Inr \<lparr>mcq_id = i + 1,
             question = js_or (get_prop q ''question'') (JStr ''''),
             optionA = js_or (opt_prop (js_index opts 0) ''text'') (JStr ''''),
             optionB = js_or (opt_prop (js_index opts 1) ''text'') (JStr ''''),
             optionC = js_or (opt_prop (js_index opts 2) ''text'') (JStr ''''),
             optionD = js_or (opt_prop (js_index opts 3) ''text'') (JStr ''''),
             correctAnswer = correct_of_flags opts,
             explanation = js_or (get_prop q ''explanation'') (JStr '''')\<rparr>)"

text \<open>Which stage of the parse produced the result.\<close>

datatype stage = Stage1 | Stage2 | Stage3 | Stage4

definition tagged :: "stage \<Rightarrow> parse_error + MCQ list \<Rightarrow> parse_error + stage \<times> MCQ list" where
  "tagged st r = (case r of Inl e \<Rightarrow> Inl e | Inr ms \<Rightarrow> Inr (st, ms))"

text \<open>
  The parse of the response in \<^verbatim>\<open>generateMCQsFromPDF\<close>, from
  \<^verbatim>\<open>let parsed\<close> to the \<^verbatim>\<open>return\<close>. \<open>json_parse\<close> is \<^verbatim>\<open>JSON.parse\<close>,
  \<open>None\<close> where it throws. An exception leaves the function with its message; the
  result also says which stage produced it.
\<close>

definition parse_pdf_response ::
  "(string \<Rightarrow> json option) \<Rightarrow> string \<Rightarrow> parse_error + stage \<times> MCQ list" where
  "parse_pdf_response json_parse content =
     (case json_parse content of
        Some parsed \<Rightarrow> tagged Stage1 (map_parsed ''mcqs'' normalize_mcq parsed)
      | None \<Rightarrow>
          (case re_exec False fence_re content of
             Some m \<Rightarrow>
               (case json_parse (trim (capture1 m)) of
                  Some parsed \<Rightarrow> tagged Stage2 (map_parsed ''mcqs'' normalize_mcq parsed)
                | None \<Rightarrow> Inl SyntaxError)
           | None \<Rightarrow>
               (case re_exec False (object_re ''mcqs'') content of
                  Some objMatch \<Rightarrow>
                    (case json_parse (matched objMatch) of
                       Some parsed \<Rightarrow> tagged Stage3 (map_parsed ''mcqs'' normalize_mcq parsed)
                     | None \<Rightarrow> Inl SyntaxError)
                | None \<Rightarrow> Inr (Stage4, parseMCQResponse content))))"

text \<open>The parse of the response in \<^verbatim>\<open>generateMCQs\<close>, which has no text parser.\<close>

definition parse_ai_response ::
  "(string \<Rightarrow> json option) \<Rightarrow> string \<Rightarrow> parse_error + stage \<times> MCQ list" where
  "parse_ai_response json_parse content =
     (case json_parse content of
        Some parsed \<Rightarrow> tagged Stage1 (map_parsed ''questions'' normalize_question parsed)
      | None \<Rightarrow>
          (case re_exec False fence_re content of
             Some m \<Rightarrow>
               (case json_parse (trim (capture1 m)) of
                  Some parsed \<Rightarrow> tagged Stage2 (map_parsed ''questions'' normalize_question parsed)
                | None \<Rightarrow> Inl SyntaxError)
           | None \<Rightarrow>
               (case re_exec False (object_re ''questions'') content of
                  Some objMatch \<Rightarrow>
                    (case json_parse (matched objMatch) of
                       Some parsed \<Rightarrow> tagged Stage3 (map_parsed ''questions'' normalize_question parsed)
                     | None \<Rightarrow> Inl SyntaxError)
                | None \<Rightarrow> Inl CouldNotParse)))"

section \<open>The document-driven screen\<close>

datatype ProcessStage = idle | picking | reading | ocr | generating | parsing | complete | error

record PickedFile =
  pf_name :: string
  pf_size :: nat
  pf_mimeType :: string

text \<open>What \<^verbatim>\<open>pickFile\<close> returns; \<open>picked\<close> is its field \<^verbatim>\<open>file\<close>.\<close>

record pick_result =
  success :: bool
  picked :: "PickedFile option"
  pick_error :: "string option"
  canceled :: bool

text \<open>The state of the screen that \<^verbatim>\<open>startProcess\<close> sets and that outlives it.\<close>

record screen =
  stage :: ProcessStage
  mcqs :: "MCQ list"
  errorMessage :: string

text \<open>The \<^verbatim>\<open>catch\<close> of \<^verbatim>\<open>startProcess\<close>, for an exception with the message
  \<open>msg\<close>.\<close>

definition fail_with :: "string \<Rightarrow> screen \<Rightarrow> screen" where
  "fail_with msg scr =
     scr\<lparr>stage := error, errorMessage := (if msg = [] then ''Something went wrong'' else msg)\<rparr>"

text \<open>
  \<^verbatim>\<open>startProcess\<close> of \<^verbatim>\<open>PDFGeneratorScreen\<close>. Arguments: those of the deduction
  callback (the value of \<^verbatim>\<open>canBypassCredits()\<close>, the user's id and e-mail, the cached
  balance, what the database does with the update and the insert), then what the file
  picker returns, what reading the file gives (an error message or the base64 text),
  what \<^verbatim>\<open>generateMCQsFromPDF\<close> gives (an error message or the questions), the screen
  and the database. Result: the screen, the cached balance and the database afterwards.
  Saving the session is inside its own \<^verbatim>\<open>try\<close> and changes none of the three. The
  message for a file that is too large is kept without the size it prints.
\<close>

definition startProcess ::
  "bool \<Rightarrow> string option \<Rightarrow> string option \<Rightarrow> int \<Rightarrow> db_outcome \<Rightarrow> db_outcome
     \<Rightarrow> pick_result \<Rightarrow> string + string \<Rightarrow> string + MCQ list \<Rightarrow> screen \<Rightarrow> ledger
     \<Rightarrow> screen \<times> int \<times> ledger" where
  "startProcess bypass userId userEmail credits upd ins fileResult read gen scr db =
     (if \<not> hasEnoughCredits bypass credits pdf_mcq then (scr, credits, db)
      else
        (case useCredits bypass userId userEmail credits upd ins pdf_mcq db of
           (ok, credits', db') \<Rightarrow>
             if \<not> ok then (scr, credits', db')
             else
               let scr1 = scr\<lparr>mcqs := [], errorMessage := [], stage := picking\<rparr> in
               if canceled fileResult then (scr1\<lparr>stage := idle\<rparr>, credits', db')
               else
                 (case (if success fileResult then picked fileResult else None) of
                    None \<Rightarrow>
                      (fail_with (case js_or_str (pick_error fileResult) (Some ''Failed to select file'') of
                                    Some msg \<Rightarrow> msg | None \<Rightarrow> [])
                         scr1, credits', db')
                  | Some pickedFile \<Rightarrow>
                      if pf_size pickedFile > 20 * (1024 * 1024)
                      then (fail_with ''File too large'' scr1, credits', db')
                      else
                        (case read of
                           Inl msg \<Rightarrow> (fail_with msg (scr1\<lparr>stage := reading\<rparr>), credits', db')
                         | Inr base64Data \<Rightarrow>
                             if base64Data = []
                             then (fail_with ''Failed to read file. Please try again.''
                                     (scr1\<lparr>stage := reading\<rparr>), credits', db')
                             else
                               (case gen of
                                  Inl msg \<Rightarrow> (fail_with msg (scr1\<lparr>stage := generating\<rparr>), credits', db')
                                | Inr generatedMcqs \<Rightarrow>
                                    if generatedMcqs = []
                                    then (fail_with ''Could not generate MCQs. Please try a different PDF.''
                                            (scr1\<lparr>stage := parsing\<rparr>), credits', db')
                                    else (scr1\<lparr>mcqs := generatedMcqs, stage := complete\<rparr>,
                                          credits', db'))))))"

section \<open>Concrete responses\<close>

text \<open>An option and a question in the shape that the prompt of \<^verbatim>\<open>generateMCQs\<close> asks for.\<close>

definition option_entry :: "string \<Rightarrow> bool \<Rightarrow> json" where
  "option_entry t b = JObj [(''text'', JStr t), (''isCorrect'', JBool b)]"

definition question_entry :: "string \<Rightarrow> json list \<Rightarrow> string \<Rightarrow> json" where
  "question_entry q opts e = JObj [(''question'', JStr q), (''options'', JArr opts), (''explanation'', JStr e)]"

text \<open>A response that is a fenced code block around \<open>body\<close>, with the language tag
  \<open>tag\<close> after the opening fence.\<close>

definition fenced :: "string \<Rightarrow> string \<Rightarrow> string" where
  "fenced tag body = fence @ tag @ [LF] @ body @ [LF] @ fence"

text \<open>A string between double quotes.\<close>

definition quoted :: "string \<Rightarrow> string" where
  "quoted s = CHR 0x22 # s @ [CHR 0x22]"

text \<open>The raw text of the scenario of the text parser; the same question as a JSON text
  and as the value that \<^verbatim>\<open>JSON.parse\<close> gives for it.\<close>

definition scenario_text :: string where
  "scenario_text =
     ''Question 1: What is X?'' @ [LF] @ ''A. a'' @ [LF] @ ''B. b'' @ [LF] @ ''C. c'' @ [LF] @
     ''D. d'' @ [LF] @ ''Correct Answer: B'' @ [LF] @ ''Explanation: because''"

definition scenario_json :: string where
  "scenario_json =
     ''{'' @ quoted ''mcqs'' @ '':[{'' @ quoted ''question'' @ '':'' @ quoted ''Q?'' @ '','' @
     quoted ''optionA'' @ '':'' @ quoted ''a'' @ '','' @ quoted ''optionB'' @ '':'' @ quoted ''b'' @ '','' @
     quoted ''optionC'' @ '':'' @ quoted ''c'' @ '','' @ quoted ''optionD'' @ '':'' @ quoted ''d'' @ '','' @
     quoted ''correctAnswer'' @ '':'' @ quoted ''b'' @ ''}]}''"

definition scenario_parsed :: json where
  "scenario_parsed =
     JObj [(''mcqs'', JArr [JObj [(''question'', JStr ''Q?''), (''optionA'', JStr ''a''),
                                  (''optionB'', JStr ''b''), (''optionC'', JStr ''c''),
                                  (''optionD'', JStr ''d''), (''correctAnswer'', JStr ''b'')]])]"






text \<open>A response with text around the fence, and one whose embedded object is not JSON.\<close>

definition fence_in_text :: string where
  "fence_in_text = ''See '' @ fence @ ''x'' @ fence @ '' ok''"

definition broken_object :: string where
  "broken_object = ''{'' @ quoted ''mcqs'' @ '' nope}''"

section \<open>Properties of the credit ledger\<close>

lemma CREDIT_COSTS_pos: "0 < CREDIT_COSTS feature"
  by (cases feature) simp_all

text \<open>
  Claim C10. The balance update and the append to the transaction log are two separate
  calls: when the insert throws after the update was applied, the callback returns
  \<open>False\<close>, the account's rows hold the decremented balance, and the transaction log is
  what it was.
\<close>

theorem debit_update_without_log:
  assumes "\<not> bypass" and "CREDIT_COSTS feature \<le> credits"
    and "js_or_str userId userEmail = Some identifier"
  shows "useCredits bypass userId userEmail credits DbOk DbThrows feature db =
           (False, credits,
            db\<lparr>user_subscriptions :=
                 update_credits_by_user identifier (credits - CREDIT_COSTS feature) (user_subscriptions db)\<rparr>)"
  using assms by (simp add: useCredits_def Let_def)

theorem debit_update_without_log_witness:
  "useCredits False (Some ''u1'') None 5 DbOk DbThrows pdf_mcq
     \<lparr>user_subscriptions =
        [\<lparr>row_id = 1, user_id = ''u1'', plan_type = ''basic'', status = ''active'',
          current_credits = 5, dodo_subscription_id = None\<rparr>],
      credit_transactions = []\<rparr>
   = (False, 5,
      \<lparr>user_subscriptions =
         [\<lparr>row_id = 1, user_id = ''u1'', plan_type = ''basic'', status = ''active'',
           current_credits = 0, dodo_subscription_id = None\<rparr>],
       credit_transactions = []\<rparr>)"
  using debit_update_without_log [of False pdf_mcq 5 "Some ''u1''" None "''u1''"]
  by (simp add: js_or_str_def update_credits_by_user_def)


subsection \<open>Balances stay at least zero\<close>




















subsection \<open>The logged balance\<close>

text \<open>
  Claim C8 on the renewal and the purchase of the webhook. Neither handler inspects what
  the database answers to the update of the balance. On the account \<^verbatim>\<open>u1\<close> with the
  balance \<open>7\<close>, when that update is answered with an error, the renewal logs a
  transaction of \<open>200\<close> credits with \<^verbatim>\<open>balance_after\<close> \<open>207\<close> and the purchase
  of the pack of \<open>50\<close> one with \<^verbatim>\<open>balance_after\<close> \<open>57\<close>, while the balance of
  the account stays \<open>7\<close>. On the same answer the grant of a subscription and the
  deduction callback of the hook return without logging. A debit of a session whose cached
  balance is \<open>5\<close> on an account whose balance is \<open>305\<close> logs \<open>- 5\<close> credits with
  \<^verbatim>\<open>balance_after\<close> \<open>0\<close>, not \<open>300\<close>.
\<close>

theorem logged_balance_of_unapplied_update:
  "balance_of ''u1'' (handleSubscriptionRenewed free_tier_deployment ''sub_1'' DbError DbOk (one_account 7))
     = Some 7 \<and>
   map (\<lambda>t. (tx_user_id t, tx_credits t, balance_after t))
     (credit_transactions
        (handleSubscriptionRenewed free_tier_deployment ''sub_1'' DbError DbOk (one_account 7)))
     = [(''u1'', Some 200, Some 207)] \<and>
   balance_of ''u1''
     (handlePaymentCompleted free_tier_deployment None (Some ''u1'') ''pdt_0NWfIIB8YCLeExHJxEp0D''
        DbError DbOk (one_account 7))
     = Some 7 \<and>
   map (\<lambda>t. (tx_user_id t, tx_credits t, balance_after t))
     (credit_transactions
        (handlePaymentCompleted free_tier_deployment None (Some ''u1'') ''pdt_0NWfIIB8YCLeExHJxEp0D''
           DbError DbOk (one_account 7)))
     = [(''u1'', Some 50, Some 57)] \<and>
   handleSubscriptionCreated free_tier_deployment (Some ''a@b.c'') (Some ''u1'') None
     ''pdt_0NWfIDvBZePuVfiU5bmom'' (Some ''sub_1'') DbError DbOk (one_account 7)
     = one_account 7 \<and>
   useCredits False (Some ''u1'') None 7 DbError DbOk pdf_mcq (one_account 7)
     = (False, 7, one_account 7) \<and>
   balance_of ''u1'' (one_account 305) = Some 305 \<and>
   map (\<lambda>t. (tx_user_id t, tx_credits t, balance_after t))
     (credit_transactions
        (snd (snd (useCredits False (Some ''u1'') None 5 DbOk DbOk pdf_mcq (one_account 305)))))
     = [(''u1'', Some (- 5), Some 0)]"
  by (simp add: handleSubscriptionRenewed_def handlePaymentCompleted_def handleSubscriptionCreated_def
      useCredits_def usage_tx_def Let_def one_account_def free_tier_deployment_def balance_of_def single_def
      PLAN_CREDITS_def PACKAGE_CREDITS_def PRODUCT_PLANS_def js_lookup_def lookup_or_num_def
      lookup_or_str_def js_or_num_def js_or_str_def js_truthy_str_def num_column_def
      update_credits_by_user_def)

subsection \<open>A balance fetch that fails\<close>

text \<open>
  Claim C7, as amended. When there is no authenticated user or the remote fetch answers
  with an error, \<^verbatim>\<open>getUserCredits\<close> returns a balance of \<open>0\<close> with plan type
  \<^verbatim>\<open>'none'\<close>, status \<^verbatim>\<open>'none'\<close> and no subscription; \<^verbatim>\<open>checkCredits\<close> then reports that the credits
  do not suffice for any feature, and \<^verbatim>\<open>consumeCredits\<close> returns \<^verbatim>\<open>false\<close>.
\<close>

theorem balance_fetch_fails_closed:
  assumes "user = None \<or> rpc = RpcError e"
  shows "cb_credits (getUserCredits user rpc) = 0 \<and>
         cb_plan_type (getUserCredits user rpc) = ''none'' \<and>
         cb_status (getUserCredits user rpc) = ''none'' \<and>
         \<not> has_subscription (getUserCredits user rpc) \<and>
         \<not> hasCredits (checkCredits user rpc feature) \<and>
         \<not> consumeCredits user rpc user' deduct feature"
proof -
  have "getUserCredits user rpc = no_credits"
    using assms by (auto simp: getUserCredits_def split: option.splits)
  moreover have "0 < CREDIT_COSTS feature" by (rule CREDIT_COSTS_pos)
  ultimately show ?thesis
    by (simp add: checkCredits_def consumeCredits_def Let_def no_credits_def)
qed

theorem balance_fetch_fails_closed_witness:
  "cb_credits (getUserCredits (Some ''u1'') (RpcError ''timeout'')) = 0 \<and>
   cb_plan_type (getUserCredits (Some ''u1'') (RpcError ''timeout'')) = ''none'' \<and>
   cb_status (getUserCredits (Some ''u1'') (RpcError ''timeout'')) = ''none'' \<and>
   \<not> has_subscription (getUserCredits (Some ''u1'') (RpcError ''timeout'')) \<and>
   \<not> hasCredits (checkCredits (Some ''u1'') (RpcError ''timeout'') summary) \<and>
   \<not> consumeCredits (Some ''u1'') (RpcError ''timeout'') (Some ''u1'')
        (DeductData \<lparr>dr_success = True, dr_balance = 4, dr_error = None\<rparr>) summary"
  using balance_fetch_fails_closed [of "Some ''u1''" "RpcError ''timeout''" "''timeout''" summary]
  by simp

text \<open>
  Claim C7 as stated names the plan of the result \<^verbatim>\<open>free\<close>; the plan type that
  \<^verbatim>\<open>getUserCredits\<close> returns is \<^verbatim>\<open>'none'\<close>.
\<close>

theorem balance_fetch_plan_counterexample:
  "cb_plan_type (getUserCredits None (RpcError ''timeout'')) \<noteq> ''free''"
  by (simp add: getUserCredits_def no_credits_def)

subsection \<open>Debits of two sessions\<close>

lemma useCredits_requests_applied:
  "useCredits bypass userId userEmail credits DbOk DbOk feature db =
     (case useCredits_requests bypass userId userEmail credits feature of
        None \<Rightarrow> (False, credits, db)
      | Some reqs \<Rightarrow>
          (True, if bypass then credits else credits - CREDIT_COSTS feature, fold apply_request reqs db))"
  by (simp add: useCredits_def useCredits_requests_def Let_def split: option.splits)

text \<open>
  Claim C1 on the hook's deduction callback. Two sessions of one account each hold the
  cached balance \<open>5\<close>, the cost of \<^verbatim>\<open>pdf_mcq\<close>, and the account's balance is
  \<open>5\<close>. Each callback passes its comparison on its own cache and sends an unconditional
  update to \<open>0\<close> and an insert. In each of the six orders in which the database can
  receive the four requests the balance ends at \<open>0\<close> with two usage transactions logged;
  and when the second callback runs after the first has finished, both return
  \<^verbatim>\<open>true\<close>.
\<close>

theorem two_sessions_both_debit:
  "useCredits_requests False (Some ''u1'') None 5 pdf_mcq
     = Some [ReqUpdate ''u1'' 0, ReqInsert (usage_tx ''u1'' 5 5 pdf_mcq)] \<and>
   map (\<lambda>s. (balance_of ''u1'' (fold apply_request s (one_account 5)),
              length (credit_transactions (fold apply_request s (one_account 5)))))
     (interleavings [ReqUpdate ''u1'' 0, ReqInsert (usage_tx ''u1'' 5 5 pdf_mcq)]
                    [ReqUpdate ''u1'' 0, ReqInsert (usage_tx ''u1'' 5 5 pdf_mcq)])
     = replicate 6 (Some 0, 2) \<and>
   fst (useCredits False (Some ''u1'') None 5 DbOk DbOk pdf_mcq (one_account 5)) \<and>
   fst (useCredits False (Some ''u1'') None 5 DbOk DbOk pdf_mcq
          (snd (snd (useCredits False (Some ''u1'') None 5 DbOk DbOk pdf_mcq (one_account 5)))))"
  by (simp add: useCredits_requests_def useCredits_def Let_def js_or_str_def one_account_def
      update_credits_by_user_def balance_of_def single_def numeral_eq_Suc)

section \<open>Properties of the generation pipeline and of the screen\<close>

lemma ascii_upper_bits [code]:
  "ascii_upper (Char b0 b1 b2 b3 b4 b5 b6 b7) =
     (if \<not> b7 \<and> b6 \<and> b5 \<and> (b0 \<or> b1 \<or> b2 \<or> b3 \<or> b4) \<and> \<not> (b4 \<and> b3 \<and> (b2 \<or> (b1 \<and> b0)))
      then Char b0 b1 b2 b3 b4 False b6 b7
      else Char b0 b1 b2 b3 b4 b5 b6 b7)"
  by (cases b0; cases b1; cases b2; cases b3; cases b4; cases b5; cases b6; cases b7)
     (simp_all add: ascii_upper_def)

subsection \<open>The correct option of an entry\<close>

lemma flag_of_entry:
  "truthy_opt (opt_prop (js_index (JArr (map (\<lambda>(t, b). option_entry t b) tbs)) k) ''isCorrect'')
     = (k < length tbs \<and> snd (tbs ! k))"
proof (cases "k < length tbs")
  case True
  obtain t b where "tbs ! k = (t, b)" by (cases "tbs ! k")
  then show ?thesis using True
    by (simp add: option_entry_def opt_prop_def truthy_opt_def)
next
  case False
  then show ?thesis by (simp add: opt_prop_def truthy_opt_def)
qed

lemma correct_of_flags_entries:
  "correct_of_flags (JArr (map (\<lambda>(t, b). option_entry t b) tbs)) =
     (if 3 < length tbs \<and> snd (tbs ! 3) then ''D''
      else if 2 < length tbs \<and> snd (tbs ! 2) then ''C''
      else if 1 < length tbs \<and> snd (tbs ! 1) then ''B''
      else ''A'')"
  unfolding correct_of_flags_def Let_def flag_of_entry by simp

text \<open>
  Claim C4, as amended. For an entry whose \<^verbatim>\<open>options\<close> array holds options with
  boolean \<^verbatim>\<open>isCorrect\<close> flags, the correct option is the last of the options B, C, D
  (the second, third and fourth of the array) whose flag is true, and A when none of these
  three is flagged; the flag of the first option is not read. In particular the flags
  false, true, false, false give B.
\<close>

theorem correct_option_last_flag:
  "map_sum id correctAnswer
     (normalize_question i (question_entry q (map (\<lambda>(t, b). option_entry t b) tbs) e))
     = Inr (if 3 < length tbs \<and> snd (tbs ! 3) then ''D''
            else if 2 < length tbs \<and> snd (tbs ! 2) then ''C''
            else if 1 < length tbs \<and> snd (tbs ! 1) then ''B''
            else ''A'') \<and>
   map_sum id correctAnswer
     (normalize_question 0
        (question_entry ''Q?'' [option_entry ''a'' False, option_entry ''b'' True,
                                option_entry ''c'' False, option_entry ''d'' False] []))
     = Inr ''B''"
proof -
  have n: "normalize_question i (question_entry q opts e) =
          Inr \<lparr>mcq_id = i + 1, question = js_or (Some (JStr q)) (JStr ''''),
               optionA = js_or (opt_prop (js_index (JArr opts) 0) ''text'') (JStr ''''),
               optionB = js_or (opt_prop (js_index (JArr opts) 1) ''text'') (JStr ''''),
               optionC = js_or (opt_prop (js_index (JArr opts) 2) ''text'') (JStr ''''),
               optionD = js_or (opt_prop (js_index (JArr opts) 3) ''text'') (JStr ''''),
               correctAnswer = correct_of_flags (JArr opts),
               explanation = js_or (Some (JStr e)) (JStr '''')\<rparr>" for i q opts e
    by (simp add: normalize_question_def question_entry_def Let_def js_or_def)
  have "correct_of_flags (JArr [option_entry ''a'' False, option_entry ''b'' True,
                                option_entry ''c'' False, option_entry ''d'' False]) = ''B''"
    using correct_of_flags_entries [of "[(''a'', False), (''b'', True), (''c'', False), (''d'', False)]"]
    by simp
  then show ?thesis
    by (simp add: n correct_of_flags_entries)
qed

text \<open>
  Claim C4 as stated fails: with the flags false, true, true, false the first flagged
  option is B and the result is C; with the flags true, false, false, true the first
  flagged option is A and the result is D.
\<close>

theorem first_flag_counterexample:
  "map_sum id correctAnswer
     (normalize_question 0
        (question_entry ''Q?'' [option_entry ''a'' False, option_entry ''b'' True,
                                option_entry ''c'' True, option_entry ''d'' False] []))
     = Inr ''C'' \<and>
   map_sum id correctAnswer
     (normalize_question 0
        (question_entry ''Q?'' [option_entry ''a'' True, option_entry ''b'' False,
                                option_entry ''c'' False, option_entry ''d'' True] []))
     = Inr ''D''"
  by (simp add: normalize_question_def question_entry_def Let_def js_or_def
      correct_of_flags_def option_entry_def opt_prop_def truthy_opt_def)

subsection \<open>Blocks and entries that are incomplete\<close>





subsection \<open>The charge of the document-driven flow\<close>

text \<open>
  Claim C9 as stated fails where the pick fails: after the debit the screen is in the
  stage \<^verbatim>\<open>error\<close>, not \<^verbatim>\<open>idle\<close>; the balance is decremented all the same.
\<close>

theorem pick_failure_counterexample:
  "stage (fst (startProcess False (Some ''u1'') None 5 DbOk DbOk
          \<lparr>success = False, picked = None, pick_error = Some ''Failed to pick file'', canceled = False\<rparr>
          (Inl []) (Inl []) \<lparr>stage = idle, mcqs = [], errorMessage = []\<rparr> (one_account 5)))
     = error \<and>
   balance_of ''u1'' (snd (snd (startProcess False (Some ''u1'') None 5 DbOk DbOk
          \<lparr>success = False, picked = None, pick_error = Some ''Failed to pick file'', canceled = False\<rparr>
          (Inl []) (Inl []) \<lparr>stage = idle, mcqs = [], errorMessage = []\<rparr> (one_account 5))))
     = Some 0"
  by (simp add: startProcess_def hasEnoughCredits_def useCredits_def Let_def js_or_str_def
      one_account_def update_credits_by_user_def fail_with_def balance_of_def single_def)

text \<open>
  Claim C9, as amended. Outside bypass mode, when the debit of \<^verbatim>\<open>startProcess\<close>
  succeeds, the rows of the account hold the balance decremented by \<open>5\<close> when
  \<^verbatim>\<open>startProcess\<close> returns, whatever the file picker, the reading of the file and the
  generation give: the debit is made before the picker opens and nothing credits it
  back. When the user cancels the picker the screen returns to the stage \<^verbatim>\<open>idle\<close>;
  when the pick fails the screen goes to the stage \<^verbatim>\<open>error\<close>.
\<close>

theorem charge_stands_after_pick:
  assumes "\<not> bypass" and "CREDIT_COSTS pdf_mcq \<le> credits"
    and "js_or_str userId userEmail = Some ident" and "upd = DbOk" and "ins \<noteq> DbThrows"
  shows "user_subscriptions (snd (snd (startProcess bypass userId userEmail credits upd ins fileResult read gen scr db)))
           = update_credits_by_user ident (credits - 5) (user_subscriptions db) \<and>
         fst (snd (startProcess bypass userId userEmail credits upd ins fileResult read gen scr db))
           = credits - 5 \<and>
         (canceled fileResult \<longrightarrow>
            stage (fst (startProcess bypass userId userEmail credits upd ins fileResult read gen scr db)) = idle) \<and>
         (\<not> canceled fileResult \<and> (\<not> success fileResult \<or> picked fileResult = None) \<longrightarrow>
            stage (fst (startProcess bypass userId userEmail credits upd ins fileResult read gen scr db)) = error)"
proof -
  let ?rows = "update_credits_by_user ident (credits - 5) (user_subscriptions db)"
  obtain db' where debit: "useCredits bypass userId userEmail credits upd ins pdf_mcq db = (True, credits - 5, db')"
    and rows: "user_subscriptions db' = ?rows"
    using assms by (cases ins) (simp_all add: useCredits_def Let_def)
  have enough: "hasEnoughCredits bypass credits pdf_mcq"
    using assms by (simp add: hasEnoughCredits_def)
  show ?thesis
  proof (cases "canceled fileResult")
    case True
    then show ?thesis using debit rows enough by (simp add: startProcess_def Let_def)
  next
    case notc: False
    show ?thesis
    proof (cases "if success fileResult then picked fileResult else None")
      case None
      then have "\<not> success fileResult \<or> picked fileResult = None"
        by (auto split: if_splits)
      then show ?thesis using None notc debit rows enough
        by (simp add: startProcess_def Let_def fail_with_def)
    next
      case (Some pickedFile)
      then have ok: "success fileResult" "picked fileResult = Some pickedFile"
        by (auto split: if_splits)
      have "snd (startProcess bypass userId userEmail credits upd ins fileResult read gen scr db)
              = (credits - 5, db')"
        using Some notc debit enough
        by (cases read; cases gen)
           (simp_all add: startProcess_def Let_def fail_with_def)
      then show ?thesis using rows notc ok by simp
    qed
  qed
qed

theorem charge_stands_after_pick_witness:
  "user_subscriptions (snd (snd (startProcess False (Some ''u1'') None 5 DbOk DbOk
          \<lparr>success = False, picked = None, pick_error = None, canceled = True\<rparr>
          (Inl []) (Inl []) \<lparr>stage = complete, mcqs = [], errorMessage = []\<rparr> (one_account 5))))
     = user_subscriptions (one_account 0) \<and>
   stage (fst (startProcess False (Some ''u1'') None 5 DbOk DbOk
          \<lparr>success = False, picked = None, pick_error = None, canceled = True\<rparr>
          (Inl []) (Inl []) \<lparr>stage = complete, mcqs = [], errorMessage = []\<rparr> (one_account 5)))
     = idle"
  using charge_stands_after_pick [of False 5 "Some ''u1''" None "''u1''" DbOk DbOk
      "\<lparr>success = False, picked = None, pick_error = None, canceled = True\<rparr>"
      "Inl []" "Inl []" "\<lparr>stage = complete, mcqs = [], errorMessage = []\<rparr>" "one_account 5"]
  by (simp add: js_or_str_def one_account_def update_credits_by_user_def)

subsection \<open>The order of the stages\<close>

text \<open>The equations of the matcher, by the shape of the input.\<close>

declare rmatch.simps [simp del]

lemma rmatch_Nil [simp]: "rmatch ci n [] s caps = Some (s, caps)"
  by (simp add: rmatch.simps)

lemma rmatch_Chr [simp]:
  "rmatch ci n (Chr c # rs) [] caps = None"
  "rmatch ci n (Chr c # rs) (x # xs) caps = (if cmatch ci c x then rmatch ci n rs xs caps else None)"
  by (simp_all add: rmatch.simps)

lemma rmatch_Star [simp]:
  "rmatch ci n (Star c # rs) [] caps = rmatch ci n rs [] caps"
  "rmatch ci n (Star c # rs) (x # xs) caps =
     (if cmatch ci c x
      then (case rmatch ci n (Star c # rs) xs caps of
              Some r \<Rightarrow> Some r
            | None \<Rightarrow> rmatch ci n rs (x # xs) caps)
      else rmatch ci n rs (x # xs) caps)"
  by (simp_all add: rmatch.simps)

lemma rmatch_StarLazy_Nil [simp]:
  "rmatch ci n (StarLazy c # rs) [] caps = rmatch ci n rs [] caps"
  by (simp add: rmatch.simps split: option.splits)

lemma rmatch_StarLazy_Cons [simp]:
  "rmatch ci n (StarLazy c # rs) (x # xs) caps =
     (case rmatch ci n rs (x # xs) caps of
        Some r \<Rightarrow> Some r
      | None \<Rightarrow> if cmatch ci c x then rmatch ci n (StarLazy c # rs) xs caps else None)"
  by (cases "rmatch ci n rs (x # xs) caps") (simp_all add: rmatch.simps)

lemmas rmatch_other [simp] = rmatch.simps(5-11)

lemma rmatch_lit:
  "rmatch False n (lit l @ rs) (l @ s) caps = rmatch False n rs s caps"
  by (induction l) (simp_all add: lit_def)

lemma rmatch_star_space:
  "rmatch ci n rs (dropWhile is_space s) caps = Some r \<Longrightarrow> rmatch ci n (Star Space # rs) s caps = Some r"
proof (induction s)
  case Nil
  then show ?case by simp
next
  case (Cons a s)
  then show ?case by (cases "is_space a") simp_all
qed

lemma rmatch_lazy_fence:
  "CHR 0x60 \<notin> set u \<Longrightarrow>
   rmatch False n (StarLazy AnyChar # EndGroup t0 # lit fence) (u @ fence) caps
     = Some ([], caps @ [take (length t0 - length fence) t0])"
proof (induction u)
  case Nil
  then show ?case by (simp add: lit_def fence_def)
next
  case (Cons x u)
  then have "x \<noteq> CHR 0x60" by auto
  then have "rmatch False n (EndGroup t0 # lit fence) ((x # u) @ fence) caps = None"
    by (simp add: lit_def fence_def)
  then show ?case using Cons by simp
qed

lemma dropWhile_space_fence:
  "dropWhile is_space (s @ fence) = dropWhile is_space s @ fence"
  by (simp add: dropWhile_append fence_def is_space_def)

lemma trim_dropWhile: "trim (dropWhile is_space s) = trim s"
  by (simp add: trim_def)

lemma trim_snoc_space:
  assumes sp: "is_space c"
  shows "trim (s @ [c]) = trim s"
proof (cases "\<forall>x \<in> set s. is_space x")
  case True
  then have "\<forall>x \<in> set (s @ [c]). is_space x"
    using sp by auto
  then have "dropWhile is_space (s @ [c]) = []"
    by (rule iffD2 [OF dropWhile_eq_Nil_conv])
  moreover have "dropWhile is_space s = []"
    using True by (rule iffD2 [OF dropWhile_eq_Nil_conv])
  ultimately show ?thesis by (simp only: trim_def rev.simps dropWhile.simps)
next
  case False
  then obtain x where "x \<in> set s" "\<not> is_space x" by blast
  then have "dropWhile is_space (s @ [c]) = dropWhile is_space s @ [c]"
    by (rule dropWhile_append1)
  then show ?thesis using sp by (simp add: trim_def)
qed

lemma is_space_LF: "is_space LF"
  by (simp add: is_space_def LF_def)

lemma fence_match:
  assumes tag: "tag = [] \<or> tag = ''json''" and body: "CHR 0x60 \<notin> set body"
  shows "\<exists>m. re_exec False fence_re (fenced tag body) = Some m \<and> trim (capture1 m) = trim body"
proof -
  let ?u = "dropWhile is_space (body @ [LF])"
  let ?s = "LF # body @ [LF] @ fence"
  let ?rest = "[Group [StarLazy AnyChar]] @ lit fence"
  have u: "CHR 0x60 \<notin> set ?u"
    using body set_dropWhileD [of "CHR 0x60" is_space "body @ [LF]"] by (auto simp: LF_def)
  have drop: "dropWhile is_space ?s = ?u @ fence"
    using dropWhile_space_fence [of "body @ [LF]"] by (simp add: is_space_LF)
  have "rmatch False n ?rest (?u @ fence) [] = Some ([], [?u])" for n
    using rmatch_lazy_fence [OF u, of n "?u @ fence" "[]"] by simp
  then have star: "rmatch False n (Star Space # ?rest) ?s [] = Some ([], [?u])" for n
    using drop by (intro rmatch_star_space) simp
  have opt: "rmatch False n (Opt (lit ''json'') # Star Space # ?rest) (tag @ ?s) [] = Some ([], [?u])" for n
  proof (cases "tag = []")
    case True
    have "rmatch False n (lit ''json'' @ Star Space # ?rest) ?s [] = None"
      by (simp add: lit_def LF_def)
    then show ?thesis using True star by simp
  next
    case False
    then have "tag = ''json''" using tag by simp
    then show ?thesis using rmatch_lit [of n "''json''" "Star Space # ?rest" ?s "[]"] star by simp
  qed
  have "rmatch False n fence_re (fenced tag body) [] = Some ([], [?u])" for n
    using rmatch_lit [of n fence "Opt (lit ''json'') # Star Space # ?rest" "tag @ ?s" "[]"] opt
    by (simp add: fence_re_def fenced_def)
  then have "re_exec False fence_re (fenced tag body) = Some (fenced tag body, [], [?u])"
    by (simp add: re_exec_def)
  moreover have "trim ?u = trim body"
    by (simp add: trim_dropWhile trim_snoc_space is_space_LF)
  ultimately show ?thesis by (simp add: capture1_def)
qed

lemma tagged_not_Stage4: "st \<noteq> Stage4 \<Longrightarrow> tagged st r \<noteq> Inr (Stage4, ms)"
  by (cases r) (simp_all add: tagged_def)

lemma pdf_stage4_only_last:
  assumes "parse_pdf_response json_parse content = Inr (Stage4, ms)"
  shows "json_parse content = None \<and> re_exec False fence_re content = None \<and>
         re_exec False (object_re ''mcqs'') content = None \<and> ms = parseMCQResponse content"
proof -
  have 1: "json_parse content = None"
  proof (cases "json_parse content")
    case (Some parsed)
    then show ?thesis using assms tagged_not_Stage4 [of Stage1]
      by (simp add: parse_pdf_response_def)
  qed simp
  have 2: "re_exec False fence_re content = None"
  proof (cases "re_exec False fence_re content")
    case (Some m)
    then show ?thesis using assms 1 tagged_not_Stage4 [of Stage2]
      by (cases "json_parse (trim (capture1 m))") (simp_all add: parse_pdf_response_def)
  qed simp
  have 3: "re_exec False (object_re ''mcqs'') content = None"
  proof (cases "re_exec False (object_re ''mcqs'') content")
    case (Some m)
    then show ?thesis using assms 1 2 tagged_not_Stage4 [of Stage3]
      by (cases "json_parse (matched m)") (simp_all add: parse_pdf_response_def)
  qed simp
  show ?thesis using assms 1 2 3 by (simp add: parse_pdf_response_def)
qed

lemma ai_never_stage4: "parse_ai_response json_parse content \<noteq> Inr (Stage4, ms)"
proof (cases "json_parse content")
  case (Some parsed)
  then show ?thesis using tagged_not_Stage4 [of Stage1]
    by (simp add: parse_ai_response_def)
next
  case None
  show ?thesis
  proof (cases "re_exec False fence_re content")
    case (Some m)
    then show ?thesis using None tagged_not_Stage4 [of Stage2]
      by (cases "json_parse (trim (capture1 m))") (simp_all add: parse_ai_response_def)
  next
    case nofence: None
    show ?thesis
    proof (cases "re_exec False (object_re ''questions'') content")
      case (Some m)
      then show ?thesis using None nofence tagged_not_Stage4 [of Stage3]
        by (cases "json_parse (matched m)") (simp_all add: parse_ai_response_def)
    next
      case noobj: None
      then show ?thesis using None nofence by (simp add: parse_ai_response_def)
    qed
  qed
qed

text \<open>
  Claim C3, as amended. The whole response is parsed first, and its value is used when that
  succeeds. When it is not JSON and the fence is found, the result is that of stage 2 on
  the trimmed contents of the fence: the mapped value when they parse, and the syntax
  error, reported to the caller at once, when they do not; so it is for a response that is
  a fenced code block (with the tag \<^verbatim>\<open>json\<close> or none) around a body without a
  backquote. When no fence is found and the embedded object is, the result is that of
  stage 3 on the text of the object, the mapped value or the syntax error. The text parser
  produces the result of \<^verbatim>\<open>generateMCQsFromPDF\<close> when, and only when, the whole
  response is not JSON and neither the fence nor the embedded object is found;
  \<^verbatim>\<open>generateMCQs\<close> has no text parser and throws then.
\<close>

theorem fallback_order:
  "(json_parse content = Some parsed \<longrightarrow>
      parse_pdf_response json_parse content = tagged Stage1 (map_parsed ''mcqs'' normalize_mcq parsed) \<and>
      parse_ai_response json_parse content = tagged Stage1 (map_parsed ''questions'' normalize_question parsed)) \<and>
   ((tag = [] \<or> tag = ''json'') \<and> CHR 0x60 \<notin> set body \<and> json_parse (fenced tag body) = None \<longrightarrow>
      parse_pdf_response json_parse (fenced tag body) =
        (case json_parse (trim body) of
           Some p \<Rightarrow> tagged Stage2 (map_parsed ''mcqs'' normalize_mcq p)
         | None \<Rightarrow> Inl SyntaxError) \<and>
      parse_ai_response json_parse (fenced tag body) =
        (case json_parse (trim body) of
           Some p \<Rightarrow> tagged Stage2 (map_parsed ''questions'' normalize_question p)
         | None \<Rightarrow> Inl SyntaxError)) \<and>
   (parse_pdf_response json_parse content = Inr (Stage4, ms) \<longrightarrow>
      json_parse content = None \<and> re_exec False fence_re content = None \<and>
      re_exec False (object_re ''mcqs'') content = None \<and> ms = parseMCQResponse content) \<and>
   parse_ai_response json_parse content \<noteq> Inr (Stage4, ms) \<and>
   (json_parse content = None \<and> re_exec False fence_re content = Some m \<longrightarrow>
      parse_pdf_response json_parse content =
        (case json_parse (trim (capture1 m)) of
           Some p \<Rightarrow> tagged Stage2 (map_parsed ''mcqs'' normalize_mcq p)
         | None \<Rightarrow> Inl SyntaxError) \<and>
      parse_ai_response json_parse content =
        (case json_parse (trim (capture1 m)) of
           Some p \<Rightarrow> tagged Stage2 (map_parsed ''questions'' normalize_question p)
         | None \<Rightarrow> Inl SyntaxError)) \<and>
   (json_parse content = None \<and> re_exec False fence_re content = None \<and>
    re_exec False (object_re ''mcqs'') content = Some om \<longrightarrow>
      parse_pdf_response json_parse content =
        (case json_parse (matched om) of
           Some p \<Rightarrow> tagged Stage3 (map_parsed ''mcqs'' normalize_mcq p)
         | None \<Rightarrow> Inl SyntaxError)) \<and>
   (json_parse content = None \<and> re_exec False fence_re content = None \<and>
    re_exec False (object_re ''questions'') content = Some qm \<longrightarrow>
      parse_ai_response json_parse content =
        (case json_parse (matched qm) of
           Some p \<Rightarrow> tagged Stage3 (map_parsed ''questions'' normalize_question p)
         | None \<Rightarrow> Inl SyntaxError)) \<and>
   (json_parse content = None \<and> re_exec False fence_re content = None \<and>
    re_exec False (object_re ''mcqs'') content = None \<longrightarrow>
      parse_pdf_response json_parse content = Inr (Stage4, parseMCQResponse content)) \<and>
   (json_parse content = None \<and> re_exec False fence_re content = None \<and>
    re_exec False (object_re ''questions'') content = None \<longrightarrow>
      parse_ai_response json_parse content = Inl CouldNotParse)"
proof -
  have fenced_case: "parse_pdf_response json_parse (fenced tag body) =
        (case json_parse (trim body) of
           Some p \<Rightarrow> tagged Stage2 (map_parsed ''mcqs'' normalize_mcq p)
         | None \<Rightarrow> Inl SyntaxError) \<and>
      parse_ai_response json_parse (fenced tag body) =
        (case json_parse (trim body) of
           Some p \<Rightarrow> tagged Stage2 (map_parsed ''questions'' normalize_question p)
         | None \<Rightarrow> Inl SyntaxError)"
    if t: "tag = [] \<or> tag = ''json''" and b: "CHR 0x60 \<notin> set body"
      and j: "json_parse (fenced tag body) = None"
  proof -
    obtain m where "re_exec False fence_re (fenced tag body) = Some m" "trim (capture1 m) = trim body"
      using fence_match [OF t b] by blast
    then show ?thesis using j
      by (simp add: parse_pdf_response_def parse_ai_response_def)
  qed
  show ?thesis
    using fenced_case pdf_stage4_only_last [of json_parse content ms] ai_never_stage4 [of json_parse content ms]
    by (simp add: parse_pdf_response_def parse_ai_response_def)
qed

lemma scenario_json_facts:
  "CHR 0x60 \<notin> set scenario_json" "trim scenario_json = scenario_json"
  "scenario_json \<noteq> fenced ''json'' scenario_json"
  by code_simp+

lemma scenario_parsed_mcqs:
  "map_parsed ''mcqs'' normalize_mcq scenario_parsed =
     Inr [\<lparr>mcq_id = 1, question = JStr ''Q?'', optionA = JStr ''a'', optionB = JStr ''b'',
           optionC = JStr ''c'', optionD = JStr ''d'', correctAnswer = ''B'',
           explanation = JStr ''''\<rparr>]"
  by code_simp

lemma scenario_text_stage4:
  "parse_pdf_response Map.empty scenario_text =
     Inr (Stage4, [\<lparr>mcq_id = 1, question = JStr ''What is X?'', optionA = JStr ''a'', optionB = JStr ''b'',
       optionC = JStr ''c'', optionD = JStr ''d'', correctAnswer = ''B'',
       explanation = JStr ''because''\<rparr>])"
  by code_simp

lemma fence_in_text_match:
  "re_exec False fence_re fence_in_text = Some (fence @ ''x'' @ fence @ '' ok'', '' ok'', [''x''])"
  by code_simp

lemma broken_object_match:
  "re_exec False fence_re broken_object = None"
  "re_exec False (object_re ''mcqs'') broken_object = Some (broken_object, [], [])"
  "re_exec False (object_re ''questions'') scenario_text = None"
  by code_simp+

theorem fallback_order_witness:
  "parse_pdf_response (map_of [(scenario_json, scenario_parsed)]) (fenced ''json'' scenario_json) =
     Inr (Stage2, [\<lparr>mcq_id = 1, question = JStr ''Q?'', optionA = JStr ''a'', optionB = JStr ''b'',
           optionC = JStr ''c'', optionD = JStr ''d'', correctAnswer = ''B'',
           explanation = JStr ''''\<rparr>]) \<and>
   re_exec False fence_re scenario_text = None \<and>
   re_exec False (object_re ''mcqs'') scenario_text = None \<and>
   parse_pdf_response Map.empty fence_in_text = Inl SyntaxError \<and>
   parse_ai_response Map.empty fence_in_text = Inl SyntaxError \<and>
   parse_pdf_response Map.empty broken_object = Inl SyntaxError \<and>
   parse_pdf_response Map.empty scenario_text = Inr (Stage4, parseMCQResponse scenario_text) \<and>
   parse_ai_response Map.empty scenario_text = Inl CouldNotParse"
proof -
  let ?jp = "map_of [(scenario_json, scenario_parsed)]"
  let ?ms = "[\<lparr>mcq_id = 1, question = JStr ''What is X?'', optionA = JStr ''a'', optionB = JStr ''b'',
               optionC = JStr ''c'', optionD = JStr ''d'', correctAnswer = ''B'',
               explanation = JStr ''because''\<rparr>]"
  let ?none = "Map.empty :: string \<Rightarrow> json option"
  have "?jp (fenced ''json'' scenario_json) = None"
    using scenario_json_facts(3) by simp
  then have h: "(''json'' = [] \<or> ''json'' = ''json'') \<and> CHR 0x60 \<notin> set scenario_json \<and>
      ?jp (fenced ''json'' scenario_json) = None"
    using scenario_json_facts(1) by blast
  have "parse_pdf_response ?jp (fenced ''json'' scenario_json) =
          (case ?jp (trim scenario_json) of
             Some p \<Rightarrow> tagged Stage2 (map_parsed ''mcqs'' normalize_mcq p)
           | None \<Rightarrow> Inl SyntaxError)"
    using fallback_order [of ?jp "fenced ''json'' scenario_json" scenario_parsed "''json''" scenario_json "[]"] h
    by blast
  then have a: "parse_pdf_response ?jp (fenced ''json'' scenario_json) =
      Inr (Stage2, [\<lparr>mcq_id = 1, question = JStr ''Q?'', optionA = JStr ''a'', optionB = JStr ''b'',
           optionC = JStr ''c'', optionD = JStr ''d'', correctAnswer = ''B'',
           explanation = JStr ''''\<rparr>])"
    by (simp add: scenario_json_facts(2) scenario_parsed_mcqs tagged_def)
  have b: "re_exec False fence_re scenario_text = None \<and>
        re_exec False (object_re ''mcqs'') scenario_text = None"
    using fallback_order [of ?none scenario_text JNull "[]" "[]" ?ms] scenario_text_stage4
    by blast
  have "?none fence_in_text = None \<and>
        re_exec False fence_re fence_in_text = Some (fence @ ''x'' @ fence @ '' ok'', '' ok'', [''x''])"
    using fence_in_text_match by simp
  then have "parse_pdf_response ?none fence_in_text =
          (case ?none (trim (capture1 (fence @ ''x'' @ fence @ '' ok'', '' ok'', [''x'']))) of
             Some p \<Rightarrow> tagged Stage2 (map_parsed ''mcqs'' normalize_mcq p)
           | None \<Rightarrow> Inl SyntaxError) \<and>
        parse_ai_response ?none fence_in_text =
          (case ?none (trim (capture1 (fence @ ''x'' @ fence @ '' ok'', '' ok'', [''x'']))) of
             Some p \<Rightarrow> tagged Stage2 (map_parsed ''questions'' normalize_question p)
           | None \<Rightarrow> Inl SyntaxError)"
    using fallback_order [of ?none fence_in_text JNull "[]" "[]" "[]"
        "(fence @ ''x'' @ fence @ '' ok'', '' ok'', [''x''])"]
    by blast
  then have c: "parse_pdf_response ?none fence_in_text = Inl SyntaxError \<and>
                parse_ai_response ?none fence_in_text = Inl SyntaxError"
    by simp
  have "?none broken_object = None \<and> re_exec False fence_re broken_object = None \<and>
        re_exec False (object_re ''mcqs'') broken_object = Some (broken_object, [], [])"
    using broken_object_match by simp
  then have "parse_pdf_response ?none broken_object =
          (case ?none (matched (broken_object, [], [])) of
             Some p \<Rightarrow> tagged Stage3 (map_parsed ''mcqs'' normalize_mcq p)
           | None \<Rightarrow> Inl SyntaxError)"
    using fallback_order [of ?none broken_object JNull "[]" "[]" "[]" _ "(broken_object, [], [])"]
    by blast
  then have d: "parse_pdf_response ?none broken_object = Inl SyntaxError"
    by simp
  have "?none scenario_text = None \<and> re_exec False fence_re scenario_text = None \<and>
        re_exec False (object_re ''mcqs'') scenario_text = None \<and>
        re_exec False (object_re ''questions'') scenario_text = None"
    using b broken_object_match(3) by simp
  then have e: "parse_pdf_response ?none scenario_text = Inr (Stage4, parseMCQResponse scenario_text) \<and>
                parse_ai_response ?none scenario_text = Inl CouldNotParse"
    using fallback_order [of ?none scenario_text JNull "[]" "[]" "[]"]
    by blast
  show ?thesis using a b c d e by blast
qed

text \<open>
  Claim C3 as stated fails: for the scenario's raw text inside a fence, on which
  \<^verbatim>\<open>JSON.parse\<close> throws for the whole response and for the body, the failure of
  stage 2 is reported to the caller although the text parser finds the question in this
  response.
\<close>

theorem fenced_text_counterexample:
  "parse_pdf_response Map.empty (fenced [] scenario_text) = Inl SyntaxError \<and>
   map mcq_id (parseMCQResponse (fenced [] scenario_text)) = [1]"
  by code_simp

subsection \<open>The text parser on concrete responses\<close>

lemma scenario_text_records:
  "parseMCQResponse scenario_text =
     [\<lparr>mcq_id = 1, question = JStr ''What is X?'', optionA = JStr ''a'', optionB = JStr ''b'',
       optionC = JStr ''c'', optionD = JStr ''d'', correctAnswer = ''B'',
       explanation = JStr ''because''\<rparr>]"
  by code_simp

text \<open>
  Claim C6. On the raw text of the scenario the text parser returns exactly one record:
  question \<open>What is X?\<close>, options \<open>a\<close>, \<open>b\<close>, \<open>c\<close>, \<open>d\<close>, correct
  answer \<open>B\<close>, explanation \<open>because\<close> (and the number \<open>1\<close> as id).
\<close>

theorem text_parser_scenario:
  "parseMCQResponse
     (''Question 1: What is X?'' @ [LF] @ ''A. a'' @ [LF] @ ''B. b'' @ [LF] @ ''C. c'' @ [LF] @
      ''D. d'' @ [LF] @ ''Correct Answer: B'' @ [LF] @ ''Explanation: because'')
   = [\<lparr>mcq_id = 1, question = JStr ''What is X?'', optionA = JStr ''a'', optionB = JStr ''b'',
       optionC = JStr ''c'', optionD = JStr ''d'', correctAnswer = ''B'',
       explanation = JStr ''because''\<rparr>]"
  using scenario_text_records unfolding scenario_text_def .



subsection \<open>Blocks without the label of an option\<close>

























end
